theory Spec2Isabelle
  imports Complex_Main "HOL-Library.Multiset" "HOL-Library.Log_Nat"
begin

section \<open>Strings\<close>

text \<open>
  A JavaScript string is modelled as a \<^typ>\<open>string\<close>: a list of code units, each below 256.
  Of the characters that \<^verbatim>\<open>String.prototype.trim\<close> strips and that the regular expression
  class \<^verbatim>\<open>\s\<close> matches, the ones in that range are TAB, LF, VT, FF, CR, SPACE and NBSP.
\<close>

definition LF :: char where
  "LF = CHR 0x0A"

definition is_space :: "char \<Rightarrow> bool" where
  "is_space c \<longleftrightarrow>
     c = CHR 0x09 \<or> c = CHR 0x0A \<or> c = CHR 0x0B \<or> c = CHR 0x0C \<or> c = CHR 0x0D \<or>
     c = CHR 0x20 \<or> c = CHR 0xA0"

definition trim :: "string \<Rightarrow> string" where
  "trim s = rev (dropWhile is_space (rev (dropWhile is_space s)))"

definition startsWith :: "string \<Rightarrow> string \<Rightarrow> bool" where
  "startsWith s p \<longleftrightarrow> take (length p) s = p"

text \<open>\<^verbatim>\<open>toLowerCase\<close> on code units below 256: A-Z and the Latin-1 capitals move up by 32.\<close>

definition lower_char :: "char \<Rightarrow> char" where
  "lower_char c =
     (let n = (of_char c :: nat)
      in if (65 \<le> n \<and> n \<le> 90) \<or> (192 \<le> n \<and> n \<le> 222 \<and> n \<noteq> 215)
         then char_of (n + 32) else c)"

definition toLowerCase :: "string \<Rightarrow> string" where
  "toLowerCase s = map lower_char s"

text \<open>
  \<^verbatim>\<open>s.split(/\s+/)\<close>: the pieces between maximal runs of white space. A string that
  starts (or ends) with white space yields an empty first (or last) piece, and the empty
  string yields one empty piece.
\<close>

function split_ws_from :: "string \<Rightarrow> string \<Rightarrow> string list" where
  "split_ws_from acc [] = [rev acc]"
| "split_ws_from acc (c # cs) =
     (if is_space c then rev acc # split_ws_from [] (dropWhile is_space cs)
      else split_ws_from (c # acc) cs)"
  by pat_completeness auto
termination
  by (relation "measure (\<lambda>(acc, s). length s)")
     (auto simp: length_dropWhile_le le_imp_less_Suc)

definition split_ws :: "string \<Rightarrow> string list" where
  "split_ws s = split_ws_from [] s"

text \<open>\<^verbatim>\<open>xs.join(sep)\<close> for a separator of one character.\<close>

fun join_with :: "char \<Rightarrow> string list \<Rightarrow> string" where
  "join_with sep [] = []"
| "join_with sep [s] = s"
| "join_with sep (s # t # ts) = s @ sep # join_with sep (t # ts)"

text \<open>Reading an array element: \<^verbatim>\<open>undefined\<close> (here \<^const>\<open>None\<close>) out of range.\<close>

definition at_index :: "'a list \<Rightarrow> nat \<Rightarrow> 'a option" where
  "at_index xs i = (if i < length xs then Some (xs ! i) else None)"

section \<open>ChatOps commands (packages/domain/src/chatops.ts)\<close>

datatype ChatOpsCommand =
    Rerun string
  | Explain string
  | Patch string
  | Stop

definition rerunScopes :: "string list" where
  "rerunScopes = [''correctness'', ''security'', ''maintainability'', ''all'']"

text \<open>The character class of \<^verbatim>\<open>/^[a-zA-Z0-9_-]+$/\<close>.\<close>

definition id_char :: "char \<Rightarrow> bool" where
  "id_char c \<longleftrightarrow>
     (let n = (of_char c :: nat)
      in (97 \<le> n \<and> n \<le> 122) \<or> (65 \<le> n \<and> n \<le> 90) \<or> (48 \<le> n \<and> n \<le> 57) \<or>
         c = CHR ''_'' \<or> c = CHR ''-'')"

definition idPattern :: "string \<Rightarrow> bool" where
  "idPattern s \<longleftrightarrow> s \<noteq> [] \<and> list_all id_char s"

definition parseChatOpsCommand :: "string \<Rightarrow> ChatOpsCommand option" where
  "parseChatOpsCommand body =
     (let trimmed = trim body in
      if \<not> startsWith trimmed ''/codex '' then None
      else if LF \<in> set trimmed then None
      else
        let tokens = split_ws trimmed in
        if length tokens < 2 then None
        else
          let subcommand = at_index tokens 1 in
          if subcommand = Some ''stop'' \<and> length tokens = 2 then Some Stop
          else if subcommand = Some ''rerun'' then
            (let requestedScope =
                   toLowerCase (case at_index tokens 2 of None \<Rightarrow> ''all'' | Some t \<Rightarrow> t)
             in if requestedScope \<notin> set rerunScopes then None else Some (Rerun requestedScope))
          else if subcommand = Some ''explain'' \<or> subcommand = Some ''patch'' then
            (let findingId = (case at_index tokens 2 of None \<Rightarrow> [] | Some t \<Rightarrow> t)
             in if \<not> idPattern findingId then None
                else if subcommand = Some ''explain'' then Some (Explain findingId)
                else Some (Patch findingId))
          else None)"

section \<open>JavaScript values\<close>

text \<open>
  A JavaScript number is NaN, an infinity, or a finite number. A finite number is a real
  that is a double (IEEE 754 binary64); zero has no sign here. Comparisons, \<^verbatim>\<open>Math.max\<close>,
  \<^verbatim>\<open>Math.min\<close> and \<^verbatim>\<open>Math.floor\<close> are exact on doubles; an arithmetic operation and the
  reading of a numeral round the exact result to the nearest double, see \<open>nearest_double\<close>
  below.
\<close>

datatype jsnum = NaN | NegInf | Fin real | PosInf

fun js_le :: "jsnum \<Rightarrow> jsnum \<Rightarrow> bool" where
  "js_le NaN _ = False"
| "js_le _ NaN = False"
| "js_le NegInf _ = True"
| "js_le _ PosInf = True"
| "js_le (Fin a) (Fin b) = (a \<le> b)"
| "js_le (Fin a) NegInf = False"
| "js_le PosInf (Fin b) = False"
| "js_le PosInf NegInf = False"

text \<open>\<^verbatim>\<open>Math.max\<close>, \<^verbatim>\<open>Math.min\<close> and \<^verbatim>\<open>Math.floor\<close>: NaN when an argument is NaN.\<close>

definition js_max :: "jsnum \<Rightarrow> jsnum \<Rightarrow> jsnum" where
  "js_max a b = (if a = NaN \<or> b = NaN then NaN else if js_le a b then b else a)"

definition js_min :: "jsnum \<Rightarrow> jsnum \<Rightarrow> jsnum" where
  "js_min a b = (if a = NaN \<or> b = NaN then NaN else if js_le a b then a else b)"


text \<open>\<^verbatim>\<open>a !== b\<close> on numbers: NaN differs from every number, itself included.\<close>

definition js_neq :: "jsnum \<Rightarrow> jsnum \<Rightarrow> bool" where
  "js_neq a b \<longleftrightarrow> a = NaN \<or> b = NaN \<or> a \<noteq> b"

text \<open>
  The sign of \<^verbatim>\<open>a - b\<close> as a sort comparator reads it: a NaN difference counts as 0.
\<close>

fun js_sub_sign :: "jsnum \<Rightarrow> jsnum \<Rightarrow> int" where
  "js_sub_sign (Fin a) (Fin b) = (if a < b then - 1 else if a = b then 0 else 1)"
| "js_sub_sign NaN _ = 0"
| "js_sub_sign _ NaN = 0"
| "js_sub_sign PosInf PosInf = 0"
| "js_sub_sign NegInf NegInf = 0"
| "js_sub_sign PosInf _ = 1"
| "js_sub_sign NegInf _ = - 1"
| "js_sub_sign (Fin a) PosInf = - 1"
| "js_sub_sign (Fin a) NegInf = 1"

text \<open>
  The values that JSON covers, and \<^verbatim>\<open>undefined\<close>. An object lists its own properties in
  order. JavaScript lists the keys that are array indices first, in ascending order, and
  the other keys in the order of their creation: the list of an object is taken to be in
  that order, and nothing here moves a key that is an array index.
\<close>

datatype jsval =
    JUndefined
  | JNull
  | JBool bool
  | JNum jsnum
  | JStr string
  | JArr "jsval list"
  | JObj "(string \<times> jsval) list"

text \<open>\<^verbatim>\<open>value.name\<close> for a value that passed \<^verbatim>\<open>typeof value === 'object'\<close> and is not null.\<close>

fun get_property :: "jsval \<Rightarrow> string \<Rightarrow> jsval" where
  "get_property (JObj props) name = (case map_of props name of None \<Rightarrow> JUndefined | Some v \<Rightarrow> v)"
| "get_property _ name = JUndefined"

text \<open>
  Writing a property of an object, or an entry of a \<^verbatim>\<open>Map\<close>: in place when the key is there,
  at the end otherwise.
\<close>

fun Map_set :: "('k \<times> 'v) list \<Rightarrow> 'k \<Rightarrow> 'v \<Rightarrow> ('k \<times> 'v) list" where
  "Map_set [] key v = [(key, v)]"
| "Map_set ((k, w) # entries) key v =
     (if k = key then (k, v) # entries else (k, w) # Map_set entries key v)"

text \<open>\<^verbatim>\<open>Array.from(new Set(xs))\<close>: the first occurrence of every element, in order.\<close>

definition Array_from_Set :: "'a list \<Rightarrow> 'a list" where
  "Array_from_Set xs = foldl (\<lambda>seen x. if x \<in> set seen then seen else seen @ [x]) [] xs"

text \<open>
  Rounding to the nearest double, ties to the even significand. A positive real \<open>x\<close> lies
  in one binade, \<open>2\<^sup>k \<le> x < 2\<^sup>k\<^sup>+\<^sup>1\<close>; the doubles of that binade are the multiples of
  \<open>2\<^sup>k\<^sup>-\<^sup>5\<^sup>2\<close>, and below \<open>2\<^sup>-\<^sup>1\<^sup>0\<^sup>2\<^sup>2\<close> the multiples of \<open>2\<^sup>-\<^sup>1\<^sup>0\<^sup>7\<^sup>4\<close>. The result is left as a
  real; \<open>Number_of_real\<close> makes an infinity of a result that is out of range.
\<close>

definition binade :: "real \<Rightarrow> int" where
  "binade x = (if 1 \<le> x then bitlen \<lfloor>x\<rfloor> - 1 else - bitlen (\<lceil>1 / x\<rceil> - 1))"

definition round_half_even :: "real \<Rightarrow> int" where
  "round_half_even y =
     (let n = \<lfloor>y\<rfloor>; d = y - of_int n
      in if d < 1 / 2 then n else if 1 / 2 < d then n + 1 else if even n then n else n + 1)"

definition nearest_double :: "real \<Rightarrow> real" where
  "nearest_double x =
     (if x = 0 then 0
      else
        let e = max (binade \<bar>x\<bar> - 52) (- 1074)
        in sgn x * of_int (round_half_even (\<bar>x\<bar> / 2 powi e)) * 2 powi e)"

definition Number_of_real :: "real \<Rightarrow> jsnum" where
  "Number_of_real x =
     (let d = nearest_double x
      in if 2 ^ 1024 \<le> d then PosInf else if d \<le> - (2 ^ 1024) then NegInf else Fin d)"

text \<open>\<^verbatim>\<open>a + b\<close> and \<^verbatim>\<open>a - b\<close> on numbers.\<close>

fun js_add :: "jsnum \<Rightarrow> jsnum \<Rightarrow> jsnum" where
  "js_add (Fin a) (Fin b) = Number_of_real (a + b)"
| "js_add NaN _ = NaN"
| "js_add _ NaN = NaN"
| "js_add PosInf NegInf = NaN"
| "js_add NegInf PosInf = NaN"
| "js_add PosInf _ = PosInf"
| "js_add _ PosInf = PosInf"
| "js_add NegInf _ = NegInf"
| "js_add _ NegInf = NegInf"

fun js_negate :: "jsnum \<Rightarrow> jsnum" where
  "js_negate (Fin a) = Fin (- a)"
| "js_negate PosInf = NegInf"
| "js_negate NegInf = PosInf"
| "js_negate NaN = NaN"

definition js_sub :: "jsnum \<Rightarrow> jsnum \<Rightarrow> jsnum" where
  "js_sub a b = js_add a (js_negate b)"

text \<open>
  \<^verbatim>\<open>a + b\<close> and \<^verbatim>\<open>a * b\<close> on finite numbers whose result is in range (all sums and products
  of the score are far below \<open>2\<^sup>1\<^sup>0\<^sup>2\<^sup>4\<close>).
\<close>

definition add_double :: "real \<Rightarrow> real \<Rightarrow> real" where
  "add_double a b = nearest_double (a + b)"

definition mul_double :: "real \<Rightarrow> real \<Rightarrow> real" where
  "mul_double a b = nearest_double (a * b)"

text \<open>
  \<^verbatim>\<open>Number(x.toFixed(4))\<close> for a finite \<^verbatim>\<open>x\<close>. Below \<open>10\<^sup>2\<^sup>1\<close> in absolute value,
  \<^verbatim>\<open>toFixed\<close> writes the multiple of \<open>1/10000\<close> nearest to the exact value of \<^verbatim>\<open>x\<close>, the one of
  larger absolute value when two are as near, and \<^verbatim>\<open>Number\<close> reads the nearest double of it;
  from \<open>10\<^sup>2\<^sup>1\<close> on \<^verbatim>\<open>toFixed\<close> writes \<^verbatim>\<open>String(x)\<close>, which reads back as \<^verbatim>\<open>x\<close>.
\<close>

definition toFixed4 :: "real \<Rightarrow> real" where
  "toFixed4 x =
     (if 10 ^ 21 \<le> \<bar>x\<bar> then x
      else nearest_double (sgn x * of_int \<lfloor>\<bar>x\<bar> * 10000 + 1 / 2\<rfloor> / 10000))"

text \<open>Decimal digits of a number that is an integer, as \<^verbatim>\<open>String(n)\<close> writes them.\<close>

definition digit_char :: "nat \<Rightarrow> char" where
  "digit_char d = ''0123456789'' ! d"

function digits_of_nat :: "nat \<Rightarrow> string" where
  "digits_of_nat n = (if n < 10 then [digit_char n] else digits_of_nat (n div 10) @ [digit_char (n mod 10)])"
  by pat_completeness auto
termination
  by (relation "measure id") auto

declare digits_of_nat.simps [simp del]

definition String_of_int :: "int \<Rightarrow> string" where
  "String_of_int i = (if i < 0 then CHR ''-'' # digits_of_nat (nat (- i)) else digits_of_nat (nat i))"

definition is_digit :: "char \<Rightarrow> bool" where
  "is_digit c \<longleftrightarrow> (let n = (of_char c :: nat) in 48 \<le> n \<and> n \<le> 57)"

text \<open>\<^verbatim>\<open>Number(digits)\<close> for a string of decimal digits.\<close>

definition Number_of_digits :: "string \<Rightarrow> int" where
  "Number_of_digits ds = foldl (\<lambda>n c. 10 * n + (int (of_char c) - 48)) 0 ds"

text \<open>
  \<^verbatim>\<open>String(value)\<close>. A number that is an integer below \<open>2\<^sup>5\<^sup>3\<close> in absolute value is written
  with its decimal digits; for any other finite number the platform chooses the shortest
  digits that denote it, and how it writes them is a parameter. An array is written as its
  elements separated by commas, \<^verbatim>\<open>null\<close> and \<^verbatim>\<open>undefined\<close> as nothing.
\<close>

definition Number_toString :: "(real \<Rightarrow> string) \<Rightarrow> jsnum \<Rightarrow> string" where
  "Number_toString shortest n =
     (case n of
        NaN \<Rightarrow> ''NaN''
      | PosInf \<Rightarrow> ''Infinity''
      | NegInf \<Rightarrow> ''-Infinity''
      | Fin r \<Rightarrow>
          if of_int \<lfloor>r\<rfloor> = r \<and> \<bar>r\<bar> < 2 ^ 53 then String_of_int \<lfloor>r\<rfloor> else shortest r)"

fun js_String :: "(real \<Rightarrow> string) \<Rightarrow> jsval \<Rightarrow> string"
  and js_String_elements :: "(real \<Rightarrow> string) \<Rightarrow> jsval list \<Rightarrow> string list" where
  "js_String shortest JUndefined = ''undefined''"
| "js_String shortest JNull = ''null''"
| "js_String shortest (JBool b) = (if b then ''true'' else ''false'')"
| "js_String shortest (JNum n) = Number_toString shortest n"
| "js_String shortest (JStr s) = s"
| "js_String shortest (JArr xs) = join_with (CHR '','') (js_String_elements shortest xs)"
| "js_String shortest (JObj props) = ''[object Object]''"
| "js_String_elements shortest [] = []"
| "js_String_elements shortest (x # xs) =
     (if x = JUndefined \<or> x = JNull then [] else js_String shortest x)
       # js_String_elements shortest xs"

text \<open>The review roles and the severities (packages/domain/src/types.ts).\<close>

datatype ReviewRole = Correctness | Security | Maintainability

datatype Severity = Low | Medium | High | Critical

section \<open>JSON text\<close>

definition hex_char :: "nat \<Rightarrow> char" where
  "hex_char d = ''0123456789abcdef'' ! d"

definition quote_char :: "char \<Rightarrow> string" where
  "quote_char c =
     (if c = CHR 0x08 then [CHR 0x5C, CHR ''b'']
      else if c = CHR 0x09 then [CHR 0x5C, CHR ''t'']
      else if c = CHR 0x0A then [CHR 0x5C, CHR ''n'']
      else if c = CHR 0x0C then [CHR 0x5C, CHR ''f'']
      else if c = CHR 0x0D then [CHR 0x5C, CHR ''r'']
      else if c = CHR 0x22 then [CHR 0x5C, CHR 0x22]
      else if c = CHR 0x5C then [CHR 0x5C, CHR 0x5C]
      else if (of_char c :: nat) < 32
        then [CHR 0x5C, CHR ''u'', CHR ''0'', CHR ''0'',
              hex_char ((of_char c :: nat) div 16), hex_char ((of_char c :: nat) mod 16)]
      else [c])"

definition QuoteJSONString :: "string \<Rightarrow> string" where
  "QuoteJSONString s = CHR 0x22 # concat (map quote_char s) @ [CHR 0x22]"


text \<open>
  \<^verbatim>\<open>JSON.parse\<close>. White space is space, TAB, LF and CR. A number is the double nearest to
  what its text denotes, an infinity beyond the range. A repeated key keeps its place and
  takes the later value.

  Reading a text has three outcomes: the value read, \<open>Malformed\<close> where \<^verbatim>\<open>JSON.parse\<close> throws a
  \<^verbatim>\<open>SyntaxError\<close>, and \<open>Unmodelled\<close> where the model does not say what \<^verbatim>\<open>JSON.parse\<close> does:
  at a \<^verbatim>\<open>\u\<close> escape above \<^verbatim>\<open>00FF\<close>, which denotes a code unit that the strings here do not
  have, and where the bound on the number of values read is used up.
\<close>

datatype 'a parsed = Parsed 'a | Malformed | Unmodelled

definition json_ws :: "char \<Rightarrow> bool" where
  "json_ws c \<longleftrightarrow> c = CHR 0x20 \<or> c = CHR 0x09 \<or> c = CHR 0x0A \<or> c = CHR 0x0D"

definition skip_ws :: "string \<Rightarrow> string" where
  "skip_ws s = dropWhile json_ws s"

definition hex_value :: "char \<Rightarrow> nat option" where
  "hex_value c =
     (let n = (of_char c :: nat)
      in if 48 \<le> n \<and> n \<le> 57 then Some (n - 48)
         else if 97 \<le> n \<and> n \<le> 102 then Some (n - 87)
         else if 65 \<le> n \<and> n \<le> 70 then Some (n - 55)
         else None)"

definition unescape :: "char \<Rightarrow> char option" where
  "unescape e =
     (if e = CHR 0x22 \<or> e = CHR 0x5C \<or> e = CHR ''/'' then Some e
      else if e = CHR ''b'' then Some (CHR 0x08)
      else if e = CHR ''f'' then Some (CHR 0x0C)
      else if e = CHR ''n'' then Some (CHR 0x0A)
      else if e = CHR ''r'' then Some (CHR 0x0D)
      else if e = CHR ''t'' then Some (CHR 0x09)
      else None)"

definition hex4 :: "string \<Rightarrow> char parsed" where
  "hex4 s =
     (case map hex_value (take 4 s) of
        [Some a, Some b, Some c, Some d] \<Rightarrow>
          if a = 0 \<and> b = 0 then Parsed (char_of (16 * c + d)) else Unmodelled
      | _ \<Rightarrow> Malformed)"

text \<open>The characters of a string after its opening quote, and the text after its closing quote.\<close>

function parse_string_chars :: "string \<Rightarrow> (string \<times> string) parsed" where
  "parse_string_chars [] = Malformed"
| "parse_string_chars (c # cs) =
     (if c = CHR 0x22 then Parsed ([], cs)
      else if c = CHR 0x5C then
        (case cs of
           [] \<Rightarrow> Malformed
         | e # rest \<Rightarrow>
             if e = CHR ''u'' then
               (case hex4 rest of
                  Parsed ch \<Rightarrow> map_parsed (\<lambda>(s, r). (ch # s, r)) (parse_string_chars (drop 4 rest))
                | Malformed \<Rightarrow> Malformed
                | Unmodelled \<Rightarrow> Unmodelled)
             else
               (case unescape e of
                  None \<Rightarrow> Malformed
                | Some ch \<Rightarrow> map_parsed (\<lambda>(s, r). (ch # s, r)) (parse_string_chars rest)))
      else if (of_char c :: nat) < 32 then Malformed
      else map_parsed (\<lambda>(s, r). (c # s, r)) (parse_string_chars cs))"
  by pat_completeness auto
termination
  by (relation "measure length") auto


text \<open>
  A number: an optional minus sign, the integer digits (a leading zero stands alone), an
  optional fraction, an optional exponent.
\<close>

definition fraction :: "string \<Rightarrow> (string \<times> string) option" where
  "fraction s =
     (if startsWith s ''.'' then
        (if takeWhile is_digit (drop 1 s) = [] then None
         else Some (takeWhile is_digit (drop 1 s), dropWhile is_digit (drop 1 s)))
      else Some ([], s))"

definition exponent :: "string \<Rightarrow> (int \<times> string) option" where
  "exponent s =
     (if startsWith s ''e'' \<or> startsWith s ''E'' then
        (let s1 = drop 1 s;
             s2 = (if startsWith s1 ''-'' \<or> startsWith s1 ''+'' then drop 1 s1 else s1)
         in if takeWhile is_digit s2 = [] then None
            else Some ((if startsWith s1 ''-'' then - 1 else 1) * Number_of_digits (takeWhile is_digit s2),
                       dropWhile is_digit s2))
      else Some (0, s))"

definition parse_number :: "string \<Rightarrow> (jsnum \<times> string) option" where
  "parse_number s =
     (let negative = startsWith s ''-'';
          s1 = (if negative then drop 1 s else s);
          int_digits = (if startsWith s1 ''0'' then ''0'' else takeWhile is_digit s1)
      in if int_digits = [] then None
         else case fraction (drop (length int_digits) s1) of
           None \<Rightarrow> None
         | Some (frac_digits, s3) \<Rightarrow>
            (case exponent s3 of
               None \<Rightarrow> None
             | Some (e, s4) \<Rightarrow>
                 Some (Number_of_real
                         ((if negative then - 1 else 1)
                          * (real_of_int (Number_of_digits int_digits)
                             + real_of_int (Number_of_digits frac_digits) / 10 ^ length frac_digits)
                          * (if 0 \<le> e then 10 ^ nat e else 1 / 10 ^ nat (- e))),
                       s4)))"

text \<open>
  A value at the head of a text, and the text after it. The first argument bounds the
  number of values and separators still to be read; the length of the text is enough for
  every text that \<^verbatim>\<open>JSON.stringify\<close> writes.
\<close>

fun parse_value :: "nat \<Rightarrow> string \<Rightarrow> (jsval \<times> string) parsed"
  and parse_elements :: "nat \<Rightarrow> string \<Rightarrow> (jsval list \<times> string) parsed"
  and parse_members ::
    "nat \<Rightarrow> (string \<times> jsval) list \<Rightarrow> string \<Rightarrow> ((string \<times> jsval) list \<times> string) parsed"
where
  "parse_value 0 s = Unmodelled"
| "parse_value (Suc n) s =
     (case s of
        [] \<Rightarrow> Malformed
      | c # cs \<Rightarrow>
          if c = CHR ''{'' then
            (if startsWith (skip_ws cs) ''}'' then Parsed (JObj [], drop 1 (skip_ws cs))
             else map_parsed (\<lambda>(props, rest). (JObj props, rest)) (parse_members n [] (skip_ws cs)))
          else if c = CHR ''['' then
            (if startsWith (skip_ws cs) '']'' then Parsed (JArr [], drop 1 (skip_ws cs))
             else map_parsed (\<lambda>(xs, rest). (JArr xs, rest)) (parse_elements n (skip_ws cs)))
          else if c = CHR 0x22 then
            map_parsed (\<lambda>(str, rest). (JStr str, rest)) (parse_string_chars cs)
          else if startsWith s ''true'' then Parsed (JBool True, drop 4 s)
          else if startsWith s ''false'' then Parsed (JBool False, drop 5 s)
          else if startsWith s ''null'' then Parsed (JNull, drop 4 s)
          else (case parse_number s of
                  None \<Rightarrow> Malformed
                | Some (r, rest) \<Rightarrow> Parsed (JNum r, rest)))"
| "parse_elements 0 s = Unmodelled"
| "parse_elements (Suc n) s =
     (case parse_value n s of
        Parsed (x, rest) \<Rightarrow>
          if startsWith (skip_ws rest) '','' then
            map_parsed (\<lambda>(xs, r). (x # xs, r)) (parse_elements n (skip_ws (drop 1 (skip_ws rest))))
          else if startsWith (skip_ws rest) '']'' then Parsed ([x], drop 1 (skip_ws rest))
          else Malformed
      | Malformed \<Rightarrow> Malformed
      | Unmodelled \<Rightarrow> Unmodelled)"
| "parse_members 0 acc s = Unmodelled"
| "parse_members (Suc n) acc s =
     (if \<not> startsWith s [CHR 0x22] then Malformed
      else case parse_string_chars (drop 1 s) of
        Parsed (key, rest) \<Rightarrow>
          if \<not> startsWith (skip_ws rest) '':'' then Malformed
          else (case parse_value n (skip_ws (drop 1 (skip_ws rest))) of
            Parsed (v, rest') \<Rightarrow>
              if startsWith (skip_ws rest') '','' then
                parse_members n (Map_set acc key v) (skip_ws (drop 1 (skip_ws rest')))
              else if startsWith (skip_ws rest') ''}'' then
                Parsed (Map_set acc key v, drop 1 (skip_ws rest'))
              else Malformed
          | Malformed \<Rightarrow> Malformed
          | Unmodelled \<Rightarrow> Unmodelled)
      | Malformed \<Rightarrow> Malformed
      | Unmodelled \<Rightarrow> Unmodelled)"

definition JSON_parse :: "string \<Rightarrow> jsval parsed" where
  "JSON_parse text =
     (case parse_value (Suc (length text)) (skip_ws text) of
        Parsed (v, rest) \<Rightarrow> if skip_ws rest = [] then Parsed v else Malformed
      | Malformed \<Rightarrow> Malformed
      | Unmodelled \<Rightarrow> Unmodelled)"

text \<open>A function that returns what \<^verbatim>\<open>JSON.parse\<close> returns, for the texts that are modelled.\<close>

definition JSON_parse_modelled :: "string \<Rightarrow> jsval option" where
  "JSON_parse_modelled text = (case JSON_parse text of Parsed v \<Rightarrow> Some v | _ \<Rightarrow> None)"

section \<open>JSON-RPC codec (packages/app-server-client/src/jsonrpc.ts)\<close>















section \<open>Diff-to-suggestion extractor (packages/domain/src/diff.ts)\<close>

text \<open>
  Line numbers are numbers: the counter read from a hunk header is the double nearest to
  what the digits denote, or \<^verbatim>\<open>Infinity\<close>.
\<close>

record GithubSuggestion =
  filePath :: string
  startLine :: jsnum
  endLine :: jsnum
  body :: string

text \<open>\<^verbatim>\<open>diff.split('\n')\<close> and \<^verbatim>\<open>pendingBody.join('\n')\<close>.\<close>

fun split_lines_from :: "string \<Rightarrow> string \<Rightarrow> string list" where
  "split_lines_from acc [] = [rev acc]"
| "split_lines_from acc (c # cs) =
     (if c = LF then rev acc # split_lines_from [] cs else split_lines_from (c # acc) cs)"

definition split_lines :: "string \<Rightarrow> string list" where
  "split_lines s = split_lines_from [] s"

fun join_lines :: "string list \<Rightarrow> string" where
  "join_lines [] = []"
| "join_lines [l] = l"
| "join_lines (l # m # ls) = l @ LF # join_lines (m # ls)"

text \<open>
  \<^verbatim>\<open>/^diff --git a\/(.+?) b\/(.+)$/\<close>, returning the second group. The dot matches no line
  terminator (of which only CR can occur in a piece of the split), the first group is
  lazy, so the separator found is the first \<^verbatim>\<open>" b/"\<close> that has a character before it and
  one after it.
\<close>

definition is_line_terminator :: "char \<Rightarrow> bool" where
  "is_line_terminator c \<longleftrightarrow> c = CHR 0x0A \<or> c = CHR 0x0D"

fun after_separator :: "string \<Rightarrow> string option" where
  "after_separator [] = None"
| "after_separator (c # cs) =
     (if startsWith (c # cs) '' b/'' \<and> drop 3 (c # cs) \<noteq> [] then Some (drop 3 (c # cs))
      else after_separator cs)"

definition fileMatch :: "string \<Rightarrow> string option" where
  "fileMatch line =
     (if \<not> startsWith line ''diff --git a/'' then None
      else
        let rest = drop 13 line in
        if list_ex is_line_terminator rest then None
        else (case rest of [] \<Rightarrow> None | c # cs \<Rightarrow> after_separator cs))"

text \<open>
  \<^verbatim>\<open>/^@@ -\d+(?:,\d+)? \+(\d+)(?:,\d+)? @@/\<close>, returning the digits of the group. Every
  digit run is followed by a character that is no digit, so the greedy match is the only
  one.
\<close>

definition skip_count :: "string \<Rightarrow> string" where
  "skip_count s =
     (case s of
        c # cs \<Rightarrow> if c = CHR '','' \<and> takeWhile is_digit cs \<noteq> [] then dropWhile is_digit cs else s
      | [] \<Rightarrow> s)"

definition hunkMatch :: "string \<Rightarrow> string option" where
  "hunkMatch line =
     (if \<not> startsWith line ''@@ -'' then None
      else
        let r1 = drop 4 line in
        if takeWhile is_digit r1 = [] then None
        else
          let r2 = skip_count (dropWhile is_digit r1) in
          if \<not> startsWith r2 '' +'' then None
          else
            let r3 = drop 2 r2; ds = takeWhile is_digit r3 in
            if ds = [] then None
            else if startsWith (skip_count (dropWhile is_digit r3)) '' @@'' then Some ds
            else None)"

text \<open>The variables of the loop of \<^verbatim>\<open>toGithubSuggestions\<close>.\<close>

record extractor =
  suggestions :: "GithubSuggestion list"
  currentFile :: "string option"
  newLine :: jsnum
  pendingStart :: "jsnum option"
  pendingBody :: "string list"

definition extractor_init :: extractor where
  "extractor_init =
     \<lparr>suggestions = [], currentFile = None, newLine = Fin 0, pendingStart = None,
      pendingBody = []\<rparr>"

text \<open>\<^verbatim>\<open>flush\<close>; \<^verbatim>\<open>!currentFile\<close> holds of \<^verbatim>\<open>null\<close> and of the empty string.\<close>

definition flush :: "extractor \<Rightarrow> extractor" where
  "flush s =
     (case (currentFile s, pendingStart s) of
        (Some f, Some p) \<Rightarrow>
          if f = [] \<or> pendingBody s = [] then s\<lparr>pendingStart := None, pendingBody := []\<rparr>
          else s\<lparr>suggestions := suggestions s @
                     [\<lparr>filePath = f, startLine = p, endLine = p, body = join_lines (pendingBody s)\<rparr>],
                  pendingStart := None, pendingBody := []\<rparr>
      | _ \<Rightarrow> s\<lparr>pendingStart := None, pendingBody := []\<rparr>)"

text \<open>\<^verbatim>\<open>Math.max(1, newLine - 1)\<close>, and the assignment to \<^verbatim>\<open>pendingStart\<close> under its guard.\<close>

definition anchor :: "jsnum \<Rightarrow> jsnum" where
  "anchor n = js_max (Fin 1) (js_sub n (Fin 1))"

definition open_pending :: "extractor \<Rightarrow> jsnum option" where
  "open_pending s =
     (case pendingStart s of None \<Rightarrow> Some (anchor (newLine s)) | Some p \<Rightarrow> Some p)"

text \<open>One iteration of the loop over the lines.\<close>

definition step :: "extractor \<Rightarrow> string \<Rightarrow> extractor" where
  "step s line =
     (case fileMatch line of
        Some f \<Rightarrow> (flush s)\<lparr>currentFile := Some f\<rparr>
      | None \<Rightarrow>
         (case hunkMatch line of
            Some ds \<Rightarrow> (flush s)\<lparr>newLine := Number_of_real (of_int (Number_of_digits ds))\<rparr>
          | None \<Rightarrow>
              if startsWith line ''+++'' \<or> startsWith line ''---'' then s
              else if startsWith line ''+'' then
                s\<lparr>pendingStart := open_pending s,
                  pendingBody := pendingBody s @ [drop 1 line],
                  newLine := js_add (newLine s) (Fin 1)\<rparr>
              else if startsWith line ''-'' then s\<lparr>pendingStart := open_pending s\<rparr>
              else
                let s' = flush s in
                if startsWith line '' '' then s'\<lparr>newLine := js_add (newLine s') (Fin 1)\<rparr>
                else s'))"

text \<open>
  \<^verbatim>\<open>xs.slice(0, m)\<close> for an integer \<^verbatim>\<open>m\<close>: a negative \<^verbatim>\<open>m\<close> counts from the end of the
  array.
\<close>

definition slice0 :: "'a list \<Rightarrow> int \<Rightarrow> 'a list" where
  "slice0 xs m = (if m < 0 then take (nat (int (length xs) + m)) xs else take (nat m) xs)"

definition toGithubSuggestions :: "string \<Rightarrow> int \<Rightarrow> GithubSuggestion list" where
  "toGithubSuggestions diff maxSuggestions =
     slice0 (suggestions (flush (foldl step extractor_init (split_lines diff)))) maxSuggestions"

text \<open>Called without a limit, the limit is 5.\<close>

definition toGithubSuggestions_default :: "string \<Rightarrow> GithubSuggestion list" where
  "toGithubSuggestions_default diff = toGithubSuggestions diff 5"

text \<open>
  The lines of a diff, as the loop classifies them: an added line, a removed line, a line
  that the loop skips although it starts with a marker (it starts with three of them, as
  the two file names of a header do), and a line that ends a block of changes (a file
  header, a hunk header, or any line that starts with neither marker, such as a context
  line).
\<close>

definition is_added :: "string \<Rightarrow> bool" where
  "is_added l \<longleftrightarrow> startsWith l ''+'' \<and> \<not> startsWith l ''+++''"

definition is_removed :: "string \<Rightarrow> bool" where
  "is_removed l \<longleftrightarrow> startsWith l ''-'' \<and> \<not> startsWith l ''---''"

definition is_skipped :: "string \<Rightarrow> bool" where
  "is_skipped l \<longleftrightarrow> startsWith l ''+++'' \<or> startsWith l ''---''"


text \<open>Invariants of the loop.\<close>

definition well_anchored :: "extractor \<Rightarrow> bool" where
  "well_anchored s \<longleftrightarrow>
     newLine s \<noteq> NaN \<and>
     list_all (\<lambda>g. endLine g = startLine g \<and> js_le (Fin 1) (startLine g)) (suggestions s) \<and>
     (case pendingStart s of None \<Rightarrow> True | Some p \<Rightarrow> js_le (Fin 1) p)"

definition pending_count :: "extractor \<Rightarrow> nat" where
  "pending_count s = length (suggestions s) + (if pendingBody s = [] then 0 else 1)"
section \<open>Protocol client (packages/app-server-client/src/client.ts)\<close>

text \<open>
  The client is a state machine driven by calls and by the events of its child process.
  What it does to the outside is recorded in a trace: spawning the child, rejecting the
  promise of a pending request or of a turn waiter with the message of an error, clearing
  a timer, emitting an event to its listeners.
\<close>

datatype effect =
    Spawn
  | RejectRequest nat string
  | RejectWaiter string string
  | ClearTimeout nat
  | Emit string

text \<open>
  \<^verbatim>\<open>child\<close> is the handle of the child process or \<^verbatim>\<open>null\<close>; \<^verbatim>\<open>pendingResponses\<close> maps a request
  id to the method of the request, \<^verbatim>\<open>turnWaiters\<close> maps the key of a turn to the timer of its
  waiter, both in insertion order.
\<close>

record client =
  child :: "nat option"
  nextRequestId :: nat
  pendingResponses :: "(nat \<times> string) list"
  turnWaiters :: "(string \<times> nat) list"
  trace :: "effect list"

text \<open>\<^verbatim>\<open>start\<close>: spawn once; \<^verbatim>\<open>handle\<close> is the process that \<^verbatim>\<open>spawn\<close> returns.\<close>

definition start :: "nat \<Rightarrow> client \<Rightarrow> client" where
  "start handle c =
     (if child c \<noteq> None then c else c\<lparr>child := Some handle, trace := trace c @ [Spawn]\<rparr>)"

text \<open>The two loops of \<^verbatim>\<open>failAllPending\<close>.\<close>

fun reject_requests :: "string \<Rightarrow> (nat \<times> string) list \<Rightarrow> effect list" where
  "reject_requests reason [] = []"
| "reject_requests reason ((request_id, method) # pending) =
     RejectRequest request_id reason # reject_requests reason pending"

fun cancel_waiters :: "(string \<times> nat) list \<Rightarrow> effect list" where
  "cancel_waiters [] = []"
| "cancel_waiters ((key, timer) # waiters) =
     ClearTimeout timer # RejectWaiter key (''Turn waiter canceled ('' @ key @ '')'')
       # cancel_waiters waiters"

definition failAllPending :: "string \<Rightarrow> client \<Rightarrow> client" where
  "failAllPending reason c =
     c\<lparr>trace := trace c @ reject_requests reason (pendingResponses c) @ cancel_waiters (turnWaiters c),
       pendingResponses := [],
       turnWaiters := []\<rparr>"

text \<open>
  The handlers that \<^verbatim>\<open>start\<close> registers on the child for its \<^verbatim>\<open>exit\<close> event (with the exit
  code or \<^verbatim>\<open>null\<close>, and the signal or \<^verbatim>\<open>null\<close>) and for its \<^verbatim>\<open>error\<close> event.
\<close>

definition exit_reason :: "int option \<Rightarrow> string option \<Rightarrow> string" where
  "exit_reason code signal =
     ''codex app-server exited (code='' @ (case code of None \<Rightarrow> ''null'' | Some n \<Rightarrow> String_of_int n)
       @ '', signal='' @ (case signal of None \<Rightarrow> ''null'' | Some s \<Rightarrow> s) @ '')''"

definition on_exit :: "int option \<Rightarrow> string option \<Rightarrow> client \<Rightarrow> client" where
  "on_exit code signal c =
     (let c' = failAllPending (exit_reason code signal) c in c'\<lparr>trace := trace c' @ [Emit ''exit'']\<rparr>)"

definition on_error :: "string \<Rightarrow> client \<Rightarrow> client" where
  "on_error message c =
     (let c' = failAllPending message c in c'\<lparr>trace := trace c' @ [Emit ''error'']\<rparr>)"

text \<open>What a handler adds to the trace.\<close>

definition effects_since :: "client \<Rightarrow> client \<Rightarrow> effect list" where
  "effects_since before after = drop (length (trace before)) (trace after)"

section \<open>Run orchestrator (services/worker/src/orchestrator.ts)\<close>

text \<open>
  The records of the store (services and packages/common/src/types.ts), with the fields
  that the orchestrator reads here. The field \<^verbatim>\<open>id\<close> is written \<open>id'\<close>.
\<close>

record RepoRecord =
  owner :: string
  name :: string
  installationId :: int

record RunWithRepo =
  id' :: int
  prNumber :: int
  repo :: RepoRecord

record FindingRecord =
  id' :: string
  title :: string
  filePath :: string
  startLine :: int
  endLine :: int
  evidence :: "(string \<times> jsval) list"

text \<open>
  The collaborators. A call of the store or of GitHub is awaited: it returns, or it rejects
  with an error (\<^const>\<open>Inl\<close> with its message). A lookup that finds nothing returns \<^verbatim>\<open>null\<close>
  (\<^const>\<open>None\<close>). \<^verbatim>\<open>createIssueComment\<close> is called with the owner, the repository, the
  installation, the number of the pull request and the body.
\<close>

record RunStore =
  getRunWithRepo :: "int \<Rightarrow> string + RunWithRepo option"
  getFinding :: "int \<Rightarrow> string \<Rightarrow> string + FindingRecord option"

datatype github_call = CreateIssueComment string string int int string

type_synonym GitHubService = "github_call \<Rightarrow> string + unit"

text \<open>\<^verbatim>\<open>renderExplainComment\<close> (services/worker/src/report.ts).\<close>

fun join_strings :: "string \<Rightarrow> string list \<Rightarrow> string" where
  "join_strings sep [] = []"
| "join_strings sep [s] = s"
| "join_strings sep (s # t # ts) = s @ sep @ join_strings sep (t # ts)"

definition renderExplainComment ::
  "string \<Rightarrow> string \<Rightarrow> string \<Rightarrow> int \<Rightarrow> int \<Rightarrow> string \<Rightarrow> string" where
  "renderExplainComment findingId title' filePath' startLine' endLine' evidence' =
     join_strings [LF, LF]
       [''### Explanation for '' @ findingId,
        ''**'' @ title' @ ''**'',
        ''Location: `'' @ filePath' @ '':'' @ String_of_int startLine' @ ''-''
          @ String_of_int endLine' @ ''`'',
        ''Evidence: '' @ evidence']"

text \<open>
  \<^verbatim>\<open>RunOrchestrator.explainFinding\<close>. The result is the error that the promise rejects with,
  or the calls made to GitHub.
\<close>

definition post_comment :: "GitHubService \<Rightarrow> github_call \<Rightarrow> string + github_call list" where
  "post_comment github call = (case github call of Inl e \<Rightarrow> Inl e | Inr _ \<Rightarrow> Inr [call])"

definition explainFinding ::
  "(real \<Rightarrow> string) \<Rightarrow> RunStore \<Rightarrow> GitHubService \<Rightarrow> int \<Rightarrow> string \<Rightarrow> string + github_call list"
where
  "explainFinding shortest store github runId findingId =
     (case getRunWithRepo store runId of
        Inl e \<Rightarrow> Inl e
      | Inr None \<Rightarrow> Inr []
      | Inr (Some run) \<Rightarrow>
         (case getFinding store runId findingId of
            Inl e \<Rightarrow> Inl e
          | Inr None \<Rightarrow>
              post_comment github
                (CreateIssueComment (owner (repo run)) (name (repo run)) (installationId (repo run))
                   (prNumber run)
                   (''No finding found for id `'' @ findingId @ ''` in run '' @ String_of_int runId @ ''.''))
          | Inr (Some finding) \<Rightarrow>
              let evidence' =
                    js_String shortest
                      (case get_property (JObj (evidence finding)) ''evidence'' of
                         JUndefined \<Rightarrow> JStr ''No evidence captured''
                       | JNull \<Rightarrow> JStr ''No evidence captured''
                       | v \<Rightarrow> v)
              in post_comment github
                   (CreateIssueComment (owner (repo run)) (name (repo run)) (installationId (repo run))
                      (prNumber run)
                      (renderExplainComment (id' finding) (title finding) (filePath finding)
                         (startLine finding) (endLine finding) evidence'))))"

text \<open>
  The findings that a persona's normalisation turn returns. \<^verbatim>\<open>parseJsonBlob\<close> reads the whole
  text as JSON and, failing that, the part from its first \<^verbatim>\<open>{\<close> to its last \<^verbatim>\<open>}\<close>. What is
  proved of the findings holds however the platform reads a text, so \<^verbatim>\<open>JSON.parse\<close> is a
  parameter here: the value that it returns, or \<^const>\<open>None\<close> when it throws.
\<close>

record NormalizedFinding =
  title :: string
  severity :: Severity
  confidence :: jsnum
  file' :: string
  startLine :: jsnum
  endLine :: jsnum
  issueKey :: string
  evidence :: string
  suggestedFix :: "string option"







text \<open>The values without NaN: every value that \<^verbatim>\<open>JSON.parse\<close> returns is one.\<close>

fun nan_free :: "jsval \<Rightarrow> bool"
  and nan_free_elements :: "jsval list \<Rightarrow> bool"
  and nan_free_properties :: "(string \<times> jsval) list \<Rightarrow> bool"
where
  "nan_free (JNum n) = (n \<noteq> NaN)"
| "nan_free (JArr xs) = nan_free_elements xs"
| "nan_free (JObj props) = nan_free_properties props"
| "nan_free JUndefined = True"
| "nan_free JNull = True"
| "nan_free (JBool b) = True"
| "nan_free (JStr s) = True"
| "nan_free_elements [] = True"
| "nan_free_elements (x # xs) = (nan_free x \<and> nan_free_elements xs)"
| "nan_free_properties [] = True"
| "nan_free_properties ((k, v) # props) = (nan_free v \<and> nan_free_properties props)"

text \<open>
  The trimmed text of a property that is a string, the empty string for any other value;
  and what the specification asks of a retained finding: a title, a file and an issue key,
  a confidence in \<open>[0, 1]\<close>, a start line that is a whole number at least 1, an end line
  that is a whole number no smaller.
\<close>

definition trimmed :: "jsval \<Rightarrow> string" where
  "trimmed v = (case v of JStr s \<Rightarrow> trim s | _ \<Rightarrow> [])"



section \<open>Finding ranking (packages/domain/src/findings.ts)\<close>

text \<open>
  Line numbers of a finding are integers. The fields \<^verbatim>\<open>id\<close> and \<^verbatim>\<open>file\<close> are written \<open>id'\<close> and \<open>file'\<close>. A score is
  always finite.
\<close>

record Finding =
  id' :: string
  repo :: string
  prNumber :: int
  role :: ReviewRole
  severity :: Severity
  confidence :: jsnum
  file' :: string
  startLine :: int
  endLine :: int
  title :: string
  issueKey :: string
  evidence :: "(string \<times> jsval) list"
  dedupeKey :: string

record RankedFinding = Finding +
  score :: real
  supportingRoles :: "ReviewRole list"

fun severityWeight :: "Severity \<Rightarrow> real" where
  "severityWeight Low = 1"
| "severityWeight Medium = 2"
| "severityWeight High = 3"
| "severityWeight Critical = 4"

text \<open>The bonuses are the doubles that the numerals \<^verbatim>\<open>0.6\<close>, \<^verbatim>\<open>0.9\<close> and \<^verbatim>\<open>0.5\<close> denote.\<close>

fun roleBonus :: "ReviewRole \<Rightarrow> real" where
  "roleBonus Correctness = nearest_double (6 / 10)"
| "roleBonus Security = nearest_double (9 / 10)"
| "roleBonus Maintainability = nearest_double (5 / 10)"

text \<open>\<^verbatim>\<open>clampConfidence\<close>; its result is finite.\<close>

definition clampConfidence :: "jsnum \<Rightarrow> real" where
  "clampConfidence v =
     (if v = NaN then 0
      else case js_min (Fin 1) (js_max (Fin 0) v) of Fin c \<Rightarrow> c | PosInf \<Rightarrow> 1 | _ \<Rightarrow> 0)"

text \<open>
  \<^verbatim>\<open>buildDedupeKey\<close>. The SHA-256 digest in hexadecimal is a function of the platform and a
  parameter here. White space runs of the issue key become one space each.
\<close>

function collapse_ws :: "string \<Rightarrow> string" where
  "collapse_ws [] = []"
| "collapse_ws (c # cs) =
     (if is_space c then CHR '' '' # collapse_ws (dropWhile is_space cs) else c # collapse_ws cs)"
  by pat_completeness auto
termination
  by (relation "measure length") (auto simp: length_dropWhile_le le_imp_less_Suc)

definition buildDedupeKey :: "(string \<Rightarrow> string) \<Rightarrow> 'a Finding_scheme \<Rightarrow> string" where
  "buildDedupeKey sha256_hex input =
     (let normalized = join_with (CHR ''|'')
            [toLowerCase (trim (file' input)),
             String_of_int (max 1 (startLine input)),
             String_of_int (max 1 (endLine input)),
             collapse_ws (toLowerCase (trim (issueKey input)))]
      in take 16 (sha256_hex normalized))"

definition higherSeverity :: "Severity \<Rightarrow> Severity \<Rightarrow> Severity" where
  "higherSeverity a b = (if severityWeight a \<ge> severityWeight b then a else b)"

text \<open>
  \<^verbatim>\<open>rankScore\<close>. The sum is taken from left to right, and every product and every sum is
  rounded to a double.
\<close>

definition rankScore :: "'a RankedFinding_scheme \<Rightarrow> real" where
  "rankScore finding =
     (let severity = mul_double (severityWeight (severity finding)) 10;
          confidence = mul_double (clampConfidence (confidence finding)) 8;
          agreement = mul_double (real (length (supportingRoles finding))) 5;
          rolePriority = roleBonus (role finding)
      in toFixed4
           (add_double (add_double (add_double severity confidence) agreement) rolePriority))"

text \<open>The two branches of the loop of \<^verbatim>\<open>dedupeFindings\<close>: the first finding of a key, and a later one.\<close>

definition seed :: "string \<Rightarrow> Finding \<Rightarrow> RankedFinding" where
  "seed key finding =
     \<lparr>id' = id' finding, repo = repo finding, prNumber = prNumber finding, role = role finding,
      severity = severity finding, confidence = Fin (clampConfidence (confidence finding)),
      file' = file' finding, startLine = startLine finding, endLine = endLine finding,
      title = title finding, issueKey = issueKey finding, evidence = evidence finding,
      dedupeKey = key, score = 0, supportingRoles = [role finding]\<rparr>"

definition merge :: "RankedFinding \<Rightarrow> Finding \<Rightarrow> RankedFinding" where
  "merge current finding =
     current\<lparr>
       severity := higherSeverity (severity current) (severity finding),
       confidence := js_max (confidence current) (Fin (clampConfidence (confidence finding))),
       title := (if length (title current) \<ge> length (title finding) then title current
                 else title finding),
       evidence := Map_set (evidence current) ''corroboratingEvidence''
          (JArr ((case get_property (JObj (evidence current)) ''corroboratingEvidence'' of
                    JArr earlier \<Rightarrow> earlier | _ \<Rightarrow> [])
                 @ [JObj (evidence finding)])),
       supportingRoles := Array_from_Set (supportingRoles current @ [role finding])\<rparr>"

definition key_of :: "(string \<Rightarrow> string) \<Rightarrow> Finding \<Rightarrow> string" where
  "key_of sha256_hex finding =
     (if dedupeKey finding \<noteq> [] then dedupeKey finding else buildDedupeKey sha256_hex finding)"

definition dedupe_step ::
  "(string \<Rightarrow> string) \<Rightarrow> (string \<times> RankedFinding) list \<Rightarrow> Finding \<Rightarrow> (string \<times> RankedFinding) list"
where
  "dedupe_step sha256_hex grouped finding =
     (let key = key_of sha256_hex finding in
      case map_of grouped key of
        None \<Rightarrow> Map_set grouped key (seed key finding)
      | Some current \<Rightarrow> Map_set grouped key (merge current finding))"

definition dedupeFindings :: "(string \<Rightarrow> string) \<Rightarrow> Finding list \<Rightarrow> RankedFinding list" where
  "dedupeFindings sha256_hex findings =
     map (\<lambda>finding. finding\<lparr>score := rankScore finding\<rparr>)
       (map snd (foldl (dedupe_step sha256_hex) [] findings))"

text \<open>
  The comparator of \<^verbatim>\<open>rankFindings\<close>, as its sign. \<^verbatim>\<open>String.prototype.localeCompare\<close> is a
  function of the platform and a parameter here.
\<close>

definition compareFindings ::
  "(string \<Rightarrow> string \<Rightarrow> int) \<Rightarrow> RankedFinding \<Rightarrow> RankedFinding \<Rightarrow> int"
where
  "compareFindings localeCompare left right =
     (if score right \<noteq> score left then (if score right < score left then - 1 else 1)
      else if js_neq (confidence right) (confidence left)
        then js_sub_sign (confidence right) (confidence left)
      else localeCompare (id' left) (id' right))"

text \<open>
  \<^verbatim>\<open>Array.prototype.sort\<close> is stable: an element goes before the first one that the
  comparator does not put before it.
\<close>

fun insert_sorted :: "('a \<Rightarrow> 'a \<Rightarrow> int) \<Rightarrow> 'a \<Rightarrow> 'a list \<Rightarrow> 'a list" where
  "insert_sorted cmp x [] = [x]"
| "insert_sorted cmp x (y # ys) =
     (if cmp x y \<le> 0 then x # y # ys else y # insert_sorted cmp x ys)"

definition Array_sort :: "('a \<Rightarrow> 'a \<Rightarrow> int) \<Rightarrow> 'a list \<Rightarrow> 'a list" where
  "Array_sort cmp xs = foldr (insert_sorted cmp) xs []"

definition rankFindings ::
  "(string \<Rightarrow> string) \<Rightarrow> (string \<Rightarrow> string \<Rightarrow> int) \<Rightarrow> Finding list \<Rightarrow> RankedFinding list"
where
  "rankFindings sha256_hex localeCompare findings =
     Array_sort (compareFindings localeCompare) (dedupeFindings sha256_hex findings)"

definition topFindings ::
  "(string \<Rightarrow> string) \<Rightarrow> (string \<Rightarrow> string \<Rightarrow> int) \<Rightarrow> Finding list \<Rightarrow> int \<Rightarrow> RankedFinding list"
where
  "topFindings sha256_hex localeCompare findings limit =
     slice0 (rankFindings sha256_hex localeCompare findings) limit"

text \<open>
  The score as the specification writes it, in exact arithmetic: severity weight times 10,
  plus the confidence clamped to \<open>[0, 1]\<close> (NaN as 0) times 8, plus 5 for every supporting
  role, plus the bonus of the role; and the rounding of a number that is not negative to 4
  decimal places, a tie going up.
\<close>

definition raw_score :: "Severity \<Rightarrow> jsnum \<Rightarrow> nat \<Rightarrow> ReviewRole \<Rightarrow> real" where
  "raw_score sev conf n r =
     (case sev of Low \<Rightarrow> 1 | Medium \<Rightarrow> 2 | High \<Rightarrow> 3 | Critical \<Rightarrow> 4) * 10
     + (case conf of NaN \<Rightarrow> 0 | NegInf \<Rightarrow> 0 | PosInf \<Rightarrow> 1
        | Fin c \<Rightarrow> if c < 0 then 0 else if 1 < c then 1 else c) * 8
     + real n * 5
     + (case r of Correctness \<Rightarrow> 6 / 10 | Security \<Rightarrow> 9 / 10 | Maintainability \<Rightarrow> 5 / 10)"

definition rounded_to_4_places :: "real \<Rightarrow> real" where
  "rounded_to_4_places x = of_int \<lfloor>x * 10000 + 1 / 2\<rfloor> / 10000"







section \<open>Properties of the rounding to doubles\<close>

lemma powi_nat: "0 \<le> k \<Longrightarrow> (2::real) powi k = 2 ^ nat k"
  by (simp add: power_int_def)

lemma powi_neg: "0 \<le> k \<Longrightarrow> (2::real) powi (- k) = 1 / 2 ^ nat k"
  by (simp add: power_int_minus powi_nat divide_inverse)

lemma binade_lower:
  assumes "0 < x"
  shows "2 powi binade x \<le> x"
proof (cases "1 \<le> x")
  case True
  define m where "m = \<lfloor>x\<rfloor>"
  from True have m: "0 < m" by (simp add: m_def)
  from bitlen_bounds [OF m] have "2 ^ nat (bitlen m - 1) \<le> m" by simp
  then have "(2::real) ^ nat (bitlen m - 1) \<le> of_int m"
    by (metis of_int_le_iff of_int_numeral of_int_power)
  moreover have "of_int m \<le> x" by (simp add: m_def)
  moreover from m have "1 \<le> bitlen m" by (simp add: bitlen_alt_def)
  then have "2 powi binade x = (2::real) ^ nat (bitlen m - 1)"
    using True by (simp add: binade_def m_def power_int_def)
  ultimately show ?thesis by linarith
next
  case False
  define c where "c = \<lceil>1 / x\<rceil> - 1"
  from False assms have "1 < 1 / x" by simp
  then have c: "0 < c" unfolding c_def by linarith
  from bitlen_bounds [OF c] have "c < 2 ^ nat (bitlen c)" by simp
  then have "c + 1 \<le> 2 ^ nat (bitlen c)" by simp
  then have "of_int (c + 1) \<le> (2::real) ^ nat (bitlen c)"
    by (metis of_int_le_iff of_int_numeral of_int_power)
  moreover have "1 / x \<le> of_int (c + 1)" by (simp add: c_def)
  ultimately have "1 / x \<le> 2 ^ nat (bitlen c)" by linarith
  with assms have "1 / 2 ^ nat (bitlen c) \<le> x"
    by (simp add: field_simps)
  moreover have "2 powi binade x = 1 / (2::real) ^ nat (bitlen c)"
    using False powi_neg [OF bitlen_nonneg, of c] by (simp add: binade_def c_def)
  ultimately show ?thesis by simp
qed

lemma binade_upper:
  assumes "0 < x"
  shows "x < 2 powi (binade x + 1)"
proof (cases "1 \<le> x")
  case True
  define m where "m = \<lfloor>x\<rfloor>"
  from True have m: "0 < m" by (simp add: m_def)
  from bitlen_bounds [OF m] have "m + 1 \<le> 2 ^ nat (bitlen m)" by simp
  then have "of_int (m + 1) \<le> (2::real) ^ nat (bitlen m)"
    by (metis of_int_le_iff of_int_numeral of_int_power)
  moreover have "x < of_int (m + 1)" by (simp add: m_def)
  moreover have "0 \<le> bitlen m" by (rule bitlen_nonneg)
  then have "2 powi (binade x + 1) = (2::real) ^ nat (bitlen m)"
    using True by (simp add: binade_def m_def power_int_def)
  ultimately show ?thesis by linarith
next
  case False
  define c where "c = \<lceil>1 / x\<rceil> - 1"
  from False assms have "1 < 1 / x" by simp
  then have c: "0 < c" unfolding c_def by linarith
  then have b: "1 \<le> bitlen c" by (simp add: bitlen_alt_def)
  from bitlen_bounds [OF c] have "2 ^ nat (bitlen c - 1) \<le> c" by simp
  then have "(2::real) ^ nat (bitlen c - 1) \<le> of_int c"
    by (metis of_int_le_iff of_int_numeral of_int_power)
  moreover have "of_int c < 1 / x" unfolding c_def by linarith
  ultimately have "2 ^ nat (bitlen c - 1) < 1 / x" by linarith
  with assms have "x < 1 / 2 ^ nat (bitlen c - 1)"
    by (simp add: field_simps)
  moreover have "binade x + 1 = - (bitlen c - 1)"
    using False by (simp add: binade_def c_def)
  moreover from b have "2 powi (- (bitlen c - 1)) = 1 / (2::real) ^ nat (bitlen c - 1)"
    by (intro powi_neg) simp
  ultimately show ?thesis by simp
qed

lemma round_half_even_near: "\<bar>of_int (round_half_even y) - y\<bar> \<le> 1 / 2"
proof -
  have "of_int \<lfloor>y\<rfloor> \<le> y" "y < of_int \<lfloor>y\<rfloor> + 1" by linarith+
  then show ?thesis unfolding round_half_even_def Let_def by (auto simp: abs_le_iff)
qed


lemma round_half_even_of_int [simp]: "round_half_even (of_int n) = n"
  by (simp add: round_half_even_def)

lemma nearest_double_error:
  assumes "x \<noteq> 0"
  shows "\<bar>nearest_double x - x\<bar> \<le> 2 powi (max (binade \<bar>x\<bar> - 52) (- 1074)) / 2"
proof -
  define p :: real where "p = 2 powi (max (binade \<bar>x\<bar> - 52) (- 1074))"
  define m where "m = round_half_even (\<bar>x\<bar> / p)"
  have p: "0 < p" by (simp add: p_def)
  have nd: "nearest_double x = sgn x * of_int m * p"
    using assms by (simp add: nearest_double_def Let_def p_def m_def)
  have "x = sgn x * \<bar>x\<bar>" by (simp add: sgn_real_def)
  then have "nearest_double x - x = sgn x * (of_int m * p - \<bar>x\<bar>)"
    unfolding nd by (simp add: algebra_simps)
  then have "\<bar>nearest_double x - x\<bar> = \<bar>of_int m * p - \<bar>x\<bar>\<bar>"
    using assms by (simp add: abs_mult sgn_real_def)
  also have "of_int m * p - \<bar>x\<bar> = p * (of_int m - \<bar>x\<bar> / p)"
    using p by (simp add: field_simps)
  also have "\<bar>p * (of_int m - \<bar>x\<bar> / p)\<bar> = p * \<bar>of_int m - \<bar>x\<bar> / p\<bar>"
    using p by (simp add: abs_mult)
  also have "\<dots> \<le> p * (1 / 2)"
    using p round_half_even_near [of "\<bar>x\<bar> / p"] unfolding m_def
    by (intro mult_left_mono) simp_all
  finally show ?thesis by (simp add: p_def)
qed

lemma nearest_double_rel: "\<bar>nearest_double x - x\<bar> \<le> \<bar>x\<bar> / 2 ^ 53 + 2 powi (- 1075)"
proof (cases "x = 0")
  case True
  then show ?thesis by (simp add: nearest_double_def)
next
  case False
  then have a: "0 < \<bar>x\<bar>" by simp
  have "(2::real) powi (binade \<bar>x\<bar> - 52) = 2 powi binade \<bar>x\<bar> / 2 ^ 52"
    by (simp add: power_int_diff)
  also have "\<dots> \<le> \<bar>x\<bar> / 2 ^ 52"
    using binade_lower [OF a] by (simp add: divide_right_mono)
  finally have "(2::real) powi (max (binade \<bar>x\<bar> - 52) (- 1074)) \<le> \<bar>x\<bar> / 2 ^ 52 + 2 powi (- 1074)"
    using a by (auto simp: max_def intro: add_increasing2 add_increasing)
  moreover have "(2::real) powi (- 1074) = 2 * 2 powi (- 1075)"
    by (simp add: power_int_minus)
  ultimately show ?thesis using nearest_double_error [OF False] by simp
qed

lemma powi_less_cancel: "(2::real) powi a < 2 powi b \<Longrightarrow> a < b"
  using power_int_increasing [of b a "2::real"] by (cases "a < b") auto

lemma nearest_double_exact:
  assumes "\<bar>m\<bar> < 2 ^ 53" and "- 1074 \<le> j"
  shows "nearest_double (of_int m * 2 powi j) = of_int m * 2 powi j"
proof (cases "m = 0")
  case True
  then show ?thesis by (simp add: nearest_double_def)
next
  case False
  define x :: real where "x = of_int m * 2 powi j"
  define e where "e = max (binade \<bar>x\<bar> - 52) (- 1074)"
  have ax: "\<bar>x\<bar> = of_int \<bar>m\<bar> * 2 powi j" by (simp add: x_def abs_mult)
  from False have pos: "0 < \<bar>x\<bar>" by (simp add: x_def)
  from assms(1) have "of_int \<bar>m\<bar> < (2::real) ^ 53"
    by (metis of_int_less_iff of_int_numeral of_int_power)
  then have "\<bar>x\<bar> < 2 ^ 53 * 2 powi j" unfolding ax by simp
  also have "\<dots> = 2 powi (53 + j)" by (simp add: power_int_add)
  finally have "2 powi binade \<bar>x\<bar> < (2::real) powi (53 + j)"
    using binade_lower [OF pos] by linarith
  then have "binade \<bar>x\<bar> < 53 + j" by (rule powi_less_cancel)
  with assms(2) have e: "e \<le> j" by (simp add: e_def)
  have "\<bar>x\<bar> / 2 powi e = of_int \<bar>m\<bar> * 2 powi (j - e)"
    unfolding ax by (simp add: power_int_diff)
  also have "\<dots> = of_int (\<bar>m\<bar> * 2 ^ nat (j - e))"
    using e by (simp add: powi_nat)
  finally have "round_half_even (\<bar>x\<bar> / 2 powi e) = \<bar>m\<bar> * 2 ^ nat (j - e)"
    by (simp only: round_half_even_of_int)
  then have "nearest_double x = sgn x * of_int (\<bar>m\<bar> * 2 ^ nat (j - e)) * 2 powi e"
    using pos by (simp add: nearest_double_def Let_def e_def)
  also have "of_int (\<bar>m\<bar> * 2 ^ nat (j - e)) = of_int \<bar>m\<bar> * (2::real) powi (j - e)"
    using e by (simp add: powi_nat)
  also have "sgn x * (of_int \<bar>m\<bar> * 2 powi (j - e)) * 2 powi e = sgn x * \<bar>x\<bar>"
    unfolding ax by (simp add: power_int_diff)
  also have "\<dots> = x" by (simp add: sgn_real_def)
  finally show ?thesis by (simp add: x_def)
qed

lemma nearest_double_of_int:
  "\<bar>m\<bar> < 2 ^ 53 \<Longrightarrow> nearest_double (of_int m) = of_int m"
  using nearest_double_exact [of m 0] by simp

lemma Number_of_real_of_int:
  assumes "\<bar>m\<bar> < 2 ^ 53"
  shows "Number_of_real (of_int m) = Fin (of_int m)"
proof -
  from assms have "\<bar>of_int m :: real\<bar> < 2 ^ 53"
    by (metis of_int_abs of_int_less_iff of_int_numeral of_int_power)
  moreover have "(2::real) ^ 53 \<le> 2 ^ 1024" by (rule power_increasing) simp_all
  ultimately have "(of_int m :: real) < 2 ^ 1024" "- (2 ^ 1024) < (of_int m :: real)"
    by linarith+
  then show ?thesis by (simp add: Number_of_real_def nearest_double_of_int [OF assms])
qed

lemma Number_of_real_numeral:
  "(numeral k :: int) < 2 ^ 53 \<Longrightarrow> Number_of_real (numeral k) = Fin (numeral k)"
  "(numeral k :: int) < 2 ^ 53 \<Longrightarrow> Number_of_real (- numeral k) = Fin (- numeral k)"
  "Number_of_real 0 = Fin 0"
  "Number_of_real 1 = Fin 1"
  using Number_of_real_of_int [of "numeral k"] Number_of_real_of_int [of "- numeral k"]
    Number_of_real_of_int [of 0] Number_of_real_of_int [of 1]
  by simp_all

lemma Number_of_real_not_NaN [simp]: "Number_of_real x \<noteq> NaN"
  by (simp add: Number_of_real_def Let_def)

lemma js_add_not_NaN: "n \<noteq> NaN \<Longrightarrow> js_add n (Fin a) \<noteq> NaN"
  by (cases n) simp_all

lemma anchor_least: "n \<noteq> NaN \<Longrightarrow> js_le (Fin 1) (anchor n)"
proof -
  assume "n \<noteq> NaN"
  then have "js_sub n (Fin 1) \<noteq> NaN" by (cases n) (simp_all add: js_sub_def)
  then show ?thesis by (cases "js_sub n (Fin 1)") (auto simp: anchor_def js_max_def)
qed

section \<open>Properties of the JSON reader\<close>

lemma map_parsed_Parsed [simp]:
  "map_parsed f p = Parsed y \<longleftrightarrow> (\<exists>x. p = Parsed x \<and> y = f x)"
  by (cases p) auto

section \<open>Properties of the ChatOps parser\<close>

lemma trim_keeps_inner:
  assumes "\<exists>c \<in> set pre. \<not> is_space c" and "\<exists>c \<in> set post. \<not> is_space c"
  shows "x \<in> set (trim (pre @ x # post))"
proof -
  from assms(1) have a: "dropWhile is_space (pre @ x # post) = dropWhile is_space pre @ x # post"
    by (auto simp: dropWhile_append1)
  from assms(2) have "\<exists>c \<in> set (rev post). \<not> is_space c" by simp
  then have b: "dropWhile is_space (rev post @ x # rev (dropWhile is_space pre))
      = dropWhile is_space (rev post) @ x # rev (dropWhile is_space pre)"
    by (auto simp: dropWhile_append1)
  show ?thesis
    unfolding trim_def a using b by simp
qed

lemma parse_rerun_default: "parseChatOpsCommand ''/codex rerun'' = Some (Rerun ''all'')"
  by (simp add: parseChatOpsCommand_def trim_def is_space_def startsWith_def LF_def split_ws_def
      at_index_def toLowerCase_def lower_char_def rerunScopes_def)

lemma parse_patch_id: "parseChatOpsCommand ''/codex patch finding_42'' = Some (Patch ''finding_42'')"
  by (simp add: parseChatOpsCommand_def trim_def is_space_def startsWith_def LF_def split_ws_def
      at_index_def idPattern_def id_char_def)

lemma parse_inner_newline:
  assumes "\<exists>c \<in> set pre. \<not> is_space c" and "\<exists>c \<in> set post. \<not> is_space c"
  shows "parseChatOpsCommand (pre @ LF # post) = None"
  using trim_keeps_inner [OF assms, of LF] by (simp add: parseChatOpsCommand_def Let_def)

text \<open>
  C8. \<^verbatim>\<open>"/codex rerun"\<close> parses to a rerun of scope \<^verbatim>\<open>all\<close>, \<^verbatim>\<open>"/codex patch finding_42"\<close> to a
  patch of finding \<^verbatim>\<open>finding_42\<close>, and every body with an embedded line feed (one with a
  character other than white space somewhere before it and somewhere after it, so that
  trimming does not remove it) is rejected.
\<close>

theorem chatops_scenarios:
  "parseChatOpsCommand ''/codex rerun'' = Some (Rerun ''all'') \<and>
   parseChatOpsCommand ''/codex patch finding_42'' = Some (Patch ''finding_42'') \<and>
   (\<forall>pre post. (\<exists>c \<in> set pre. \<not> is_space c) \<and> (\<exists>c \<in> set post. \<not> is_space c)
      \<longrightarrow> parseChatOpsCommand (pre @ LF # post) = None)"
  using parse_rerun_default parse_patch_id parse_inner_newline by blast

theorem chatops_scenarios_witness:
  "(\<exists>c \<in> set ''/codex stop''. \<not> is_space c) \<and> (\<exists>c \<in> set ''rm -rf /''. \<not> is_space c) \<and>
   parseChatOpsCommand (''/codex stop'' @ LF # ''rm -rf /'') = None \<and>
   parseChatOpsCommand ''/codex rerun'' = Some (Rerun ''all'')"
proof -
  have a: "\<exists>c \<in> set ''/codex stop''. \<not> is_space c" by (simp add: is_space_def)
  have b: "\<exists>c \<in> set ''rm -rf /''. \<not> is_space c" by (simp add: is_space_def)
  from chatops_scenarios a b show ?thesis by blast
qed

section \<open>Properties of the diff extractor\<close>

lemmas extractor_eval = toGithubSuggestions_def split_lines_def LF_def
  extractor_init_def step_def fileMatch_def hunkMatch_def startsWith_def flush_def
  is_line_terminator_def skip_count_def is_digit_def Number_of_digits_def open_pending_def
  anchor_def js_sub_def js_max_def Number_of_real_numeral slice0_def

lemma test_diff_example:
  "toGithubSuggestions_default
     (join_lines [''diff --git a/src/index.ts b/src/index.ts'',
        ''index abc123..def456 100644'',
        ''--- a/src/index.ts'',
        ''+++ b/src/index.ts'',
        ''@@ -8,3 +8,4 @@ export function main() {'',
        ''   doThing();'',
        ''-  return false;'',
        ''+  const safe = true;'',
        ''+  return safe;'',
        '' }''])
   = [\<lparr>GithubSuggestion.filePath = ''src/index.ts'', GithubSuggestion.startLine = Fin 8,
        GithubSuggestion.endLine = Fin 8,
        body = ''  const safe = true;'' @ LF # ''  return safe;''\<rparr>]"
  by (simp add: toGithubSuggestions_default_def extractor_eval)

lemma startsWith_Cons: "startsWith s (c # p) \<longleftrightarrow> (\<exists>t. s = c # t \<and> startsWith t p)"
  by (cases s) (auto simp: startsWith_def)

lemma startsWith_Nil [simp]: "startsWith s []"
  by (simp add: startsWith_def)







lemma added_not_skipped: "is_added l \<Longrightarrow> \<not> is_skipped l \<and> \<not> is_removed l"
  by (auto simp: is_added_def is_removed_def is_skipped_def startsWith_Cons)




lemma well_anchored_flush: "well_anchored s \<Longrightarrow> well_anchored (flush s)"
  by (auto simp: well_anchored_def flush_def split: option.splits)

lemma well_anchored_step: "well_anchored s \<Longrightarrow> well_anchored (step s l)"
  using well_anchored_flush [of s]
  by (auto simp: well_anchored_def step_def open_pending_def Let_def js_add_not_NaN anchor_least
      split: option.splits)

lemma well_anchored_foldl: "well_anchored s \<Longrightarrow> well_anchored (foldl step s ls)"
  by (induction ls arbitrary: s) (simp_all add: well_anchored_step)

lemma well_anchored_init: "well_anchored extractor_init"
  by (simp add: well_anchored_def extractor_init_def)

lemma slice0_subset: "set (slice0 xs m) \<subseteq> set xs"
  by (auto simp: slice0_def dest: in_set_takeD)

lemma slice0_length: "0 \<le> m \<Longrightarrow> int (length (slice0 xs m)) \<le> m"
  by (simp add: slice0_def)



lemma pending_count_flush: "length (suggestions (flush s)) \<le> pending_count s"
  by (auto simp: pending_count_def flush_def split: option.splits)

lemma pending_count_flush': "pending_count (flush s) \<le> pending_count s"
  by (auto simp: pending_count_def flush_def split: option.splits)

lemma pending_count_step:
  "pending_count (step s l) \<le> pending_count s + (if is_added l then 1 else 0)"
  using pending_count_flush' [of s]
  by (auto simp: step_def pending_count_def is_added_def Let_def split: option.splits)

lemma pending_count_foldl:
  "pending_count (foldl step s ls) \<le> pending_count s + length (filter is_added ls)"
proof (induction ls arbitrary: s)
  case Nil
  then show ?case by simp
next
  case (Cons l ls)
  have "pending_count (foldl step (step s l) ls) \<le> pending_count (step s l) + length (filter is_added ls)"
    by (rule Cons.IH)
  with pending_count_step [of s l] show ?case by auto
qed




text \<open>
  C10, as the code has it. Every suggestion returned is anchored at a single line, which
  is at least 1; for a limit that is not negative the list is no longer than the limit; and
  every suggestion stems from an added line of its own, so there are no more suggestions
  than added lines. The body itself can be the empty string: a block whose only added line
  is empty.
\<close>

theorem suggestions_shape:
  "(\<forall>g \<in> set (toGithubSuggestions diff m).
      GithubSuggestion.endLine g = GithubSuggestion.startLine g \<and>
      js_le (Fin 1) (GithubSuggestion.startLine g)) \<and>
   (0 \<le> m \<longrightarrow> int (length (toGithubSuggestions diff m)) \<le> m) \<and>
   length (toGithubSuggestions diff m) \<le> length (filter is_added (split_lines diff))"
proof -
  let ?final = "flush (foldl step extractor_init (split_lines diff))"
  have "well_anchored ?final"
    by (intro well_anchored_flush well_anchored_foldl well_anchored_init)
  then have all: "\<forall>g \<in> set (suggestions ?final).
      GithubSuggestion.endLine g = GithubSuggestion.startLine g \<and>
      js_le (Fin 1) (GithubSuggestion.startLine g)"
    by (simp add: well_anchored_def list_all_iff)
  have "length (suggestions ?final) \<le> pending_count (foldl step extractor_init (split_lines diff))"
    by (rule pending_count_flush)
  also have "\<dots> \<le> pending_count extractor_init + length (filter is_added (split_lines diff))"
    by (rule pending_count_foldl)
  finally have count: "length (suggestions ?final) \<le> length (filter is_added (split_lines diff))"
    by (simp add: pending_count_def extractor_init_def)
  have "length (slice0 (suggestions ?final) m) \<le> length (suggestions ?final)"
    by (auto simp: slice0_def)
  with count have c: "length (toGithubSuggestions diff m) \<le> length (filter is_added (split_lines diff))"
    by (simp add: toGithubSuggestions_def)
  from all slice0_subset [of "suggestions ?final" m]
  have a: "\<forall>g \<in> set (toGithubSuggestions diff m).
      GithubSuggestion.endLine g = GithubSuggestion.startLine g \<and>
      js_le (Fin 1) (GithubSuggestion.startLine g)"
    by (auto simp: toGithubSuggestions_def)
  from a c slice0_length [of m "suggestions ?final"] show ?thesis
    by (simp add: toGithubSuggestions_def)
qed

theorem suggestions_shape_witness:
  "(0::int) \<le> 1 \<and>
   int (length (toGithubSuggestions
      (join_lines [''diff --git a/f b/f'', ''@@ -1 +1,2 @@'', ''+x'', '' y'', ''+z'']) 1)) \<le> 1 \<and>
   length (toGithubSuggestions
      (join_lines [''diff --git a/f b/f'', ''@@ -1 +1,2 @@'', ''+x'', '' y'', ''+z'']) 1) \<le>
   length (filter is_added
      (split_lines (join_lines [''diff --git a/f b/f'', ''@@ -1 +1,2 @@'', ''+x'', '' y'', ''+z''])))"
  using suggestions_shape
    [of "join_lines [''diff --git a/f b/f'', ''@@ -1 +1,2 @@'', ''+x'', '' y'', ''+z'']" 1]
  by simp

text \<open>
  C10 as stated fails: a diff that adds one empty line yields a suggestion whose body is
  the empty string, and a negative limit is exceeded by every result.
\<close>

theorem suggestions_shape_counterexample:
  "(\<exists>g \<in> set (toGithubSuggestions (join_lines [''diff --git a/f b/f'', ''@@ -1 +1,2 @@'', ''+'']) 5).
      body g = []) \<and>
   \<not> int (length (toGithubSuggestions
        (join_lines [''diff --git a/f b/f'', ''@@ -1 +1,2 @@'', ''+x'', '' y'', ''+z'']) (- 1))) \<le> - 1"
  by (simp add: extractor_eval)
section \<open>Properties of the ranking\<close>

lemma clampConfidence_cases:
  "clampConfidence v = (case v of NaN \<Rightarrow> 0 | NegInf \<Rightarrow> 0 | PosInf \<Rightarrow> 1
        | Fin c \<Rightarrow> if c < 0 then 0 else if 1 < c then 1 else c)"
  by (cases v) (auto simp: clampConfidence_def js_max_def js_min_def)

lemma clampConfidence_range: "0 \<le> clampConfidence v \<and> clampConfidence v \<le> 1"
  by (cases v) (auto simp: clampConfidence_cases)

lemma tiny_double: "(2::real) powi (- 1075) \<le> 1 / 2 ^ 53"
proof -
  have "(2::real) powi (- 1075) \<le> 2 powi (- 53)"
    using power_int_increasing [of "- 1075" "- 53" "2::real"] by simp
  also have "(2::real) powi (- 53) = 1 / 2 ^ 53"
    using powi_neg [of 53] by simp
  finally show ?thesis .
qed

lemma nearest_double_step:
  assumes "\<bar>x - X\<bar> \<le> E" and "0 \<le> X" and "X \<le> S" and "E \<le> S"
    and "w = 2 * S / 2 ^ 53" and "t = 2 powi (- 1075)"
  shows "\<bar>nearest_double x - X\<bar> \<le> E + w + t"
proof -
  from assms have "\<bar>x\<bar> \<le> 2 * S" by linarith
  then have "\<bar>x\<bar> / 2 ^ 53 \<le> 2 * S / 2 ^ 53" by (simp add: divide_right_mono)
  with nearest_double_rel [of x] assms(1,5,6) show ?thesis by linarith
qed

lemma mul_severity: "mul_double (severityWeight s) 10 = severityWeight s * 10"
  using nearest_double_of_int [of 10] nearest_double_of_int [of 20]
    nearest_double_of_int [of 30] nearest_double_of_int [of 40]
  by (cases s) (simp_all add: mul_double_def)

lemma mul_agreement:
  assumes "n < 2 ^ 32"
  shows "mul_double (real n) 5 = real n * 5"
proof -
  from assms have "\<bar>int n * 5\<bar> < 2 ^ 53" by simp
  from nearest_double_of_int [OF this] show ?thesis by (simp add: mul_double_def)
qed


lemma raw_score_clamped:
  "raw_score sev conf n r =
     severityWeight sev * 10 + clampConfidence conf * 8 + real n * 5
     + (case r of Correctness \<Rightarrow> 6 / 10 | Security \<Rightarrow> 9 / 10 | Maintainability \<Rightarrow> 5 / 10)"
  by (cases sev) (simp_all add: raw_score_def clampConfidence_cases)

lemma toFixed4_of_positive:
  assumes "0 < x" and "x < 10 ^ 21"
  shows "toFixed4 x = nearest_double (of_int \<lfloor>x * 10000 + 1 / 2\<rfloor> / 10000)"
  using assms by (simp add: toFixed4_def)

lemma rankScore_near:
  fixes f :: "'a RankedFinding_scheme"
  assumes n: "length (supportingRoles f) < 2 ^ 32"
  defines "S \<equiv> raw_score (severity f) (confidence f) (length (supportingRoles f)) (role f)"
  shows "(\<exists>k::int. rankScore f = nearest_double (of_int k / 10000)) \<and>
         \<bar>rankScore f - S\<bar> \<le> 1 / 20000 + S / 2 ^ 49"
proof -
  define sw where "sw = severityWeight (severity f) * 10"
  define c where "c = clampConfidence (confidence f) * 8"
  define g where "g = real (length (supportingRoles f)) * 5"
  define b :: real where "b = (case role f of Correctness \<Rightarrow> 6 / 10 | Security \<Rightarrow> 9 / 10
      | Maintainability \<Rightarrow> 5 / 10)"
  define t :: real where "t = 2 powi (- 1075)"
  define w where "w = 2 * S / 2 ^ 53"
  have S: "S = sw + c + g + b"
    by (simp add: S_def raw_score_clamped sw_def c_def g_def b_def)
  have sw: "10 \<le> sw" "sw \<le> 40" by (cases "severity f"; simp add: sw_def)+
  have c: "0 \<le> c" "c \<le> 8" using clampConfidence_range [of "confidence f"] by (simp_all add: c_def)
  have g: "0 \<le> g" "g < 5 * 2 ^ 32" using n by (simp_all add: g_def)
  have b: "0 \<le> b" "b \<le> 1" by (cases "role f"; simp add: b_def)+
  have S10: "10 \<le> S" using S sw c g b by linarith
  have t: "0 \<le> t" "t \<le> 1 / 2 ^ 53" using tiny_double by (simp_all add: t_def)
  have rb: "roleBonus (role f) = nearest_double b" by (cases "role f") (simp_all add: b_def)
  define c' where "c' = mul_double (clampConfidence (confidence f)) 8"
  define s1 where "s1 = add_double sw c'"
  define s2 where "s2 = add_double s1 g"
  define s3 where "s3 = add_double s2 (nearest_double b)"
  have score: "rankScore f = toFixed4 s3"
    by (simp add: rankScore_def Let_def s3_def s2_def s1_def c'_def rb sw_def g_def
        mul_severity mul_agreement [OF n])
  have w: "0 \<le> w" "16 * w \<le> S" using S10 by (simp_all add: w_def)
  have tw: "10 * t \<le> w" using t S10 by (simp add: w_def)
  note step = nearest_double_step [where S = S and w = w and t = t, OF _ _ _ _ w_def t_def]
  have "\<bar>c - c\<bar> \<le> 0" by simp
  from step [OF this] have e0: "\<bar>c' - c\<bar> \<le> w + t"
    unfolding c'_def mul_double_def c_def [symmetric] using S sw c g b S10 by linarith
  have "\<bar>b - b\<bar> \<le> 0" by simp
  from step [OF this] have eb: "\<bar>nearest_double b - b\<bar> \<le> w + t"
    using S sw c g b S10 by linarith
  have "\<bar>sw + c' - (sw + c)\<bar> \<le> w + t" using e0 by simp
  from step [OF this] have e1: "\<bar>s1 - (sw + c)\<bar> \<le> 2 * w + 2 * t"
    unfolding s1_def add_double_def using S sw c g b w tw t by linarith
  then have "\<bar>s1 + g - (sw + c + g)\<bar> \<le> 2 * w + 2 * t" by simp
  from step [OF this] have e2: "\<bar>s2 - (sw + c + g)\<bar> \<le> 3 * w + 3 * t"
    unfolding s2_def add_double_def using S sw c g b w tw t by linarith
  with eb have "\<bar>s2 + nearest_double b - S\<bar> \<le> 4 * w + 4 * t" unfolding S by linarith
  from step [OF this] have e3: "\<bar>s3 - S\<bar> \<le> 5 * w + 5 * t"
    unfolding s3_def add_double_def using S10 w tw t by linarith
  have pos: "0 < s3" using e3 S10 w tw t by linarith
  have "S < 10 ^ 20" using S sw c g b by simp
  then have "2 * S < 10 ^ 21" by simp
  moreover have "s3 < 2 * S" using e3 S10 w tw t by linarith
  ultimately have small: "s3 < 10 ^ 21" by linarith
  define k where "k = \<lfloor>s3 * 10000 + 1 / 2\<rfloor>"
  have fixed: "rankScore f = nearest_double (of_int k / 10000)"
    unfolding score k_def by (rule toFixed4_of_positive [OF pos small])
  have "of_int k \<le> s3 * 10000 + 1 / 2" "s3 * 10000 + 1 / 2 < of_int k + 1"
    unfolding k_def by linarith+
  then have "\<bar>of_int k - s3 * 10000\<bar> \<le> 1 / 2" by linarith
  then have "\<bar>of_int k / 10000 - s3\<bar> \<le> 1 / 20000" by (simp add: field_simps)
  with e3 have "\<bar>of_int k / 10000 - S\<bar> \<le> 1 / 20000 + 5 * w + 5 * t" by linarith
  from step [OF this]
  have "\<bar>rankScore f - S\<bar> \<le> 1 / 20000 + 6 * w + 6 * t"
    unfolding fixed using S10 w tw t by linarith
  moreover have "8 * w = S / 2 ^ 49" by (simp add: w_def)
  ultimately have "\<bar>rankScore f - S\<bar> \<le> 1 / 20000 + S / 2 ^ 49" using tw w by linarith
  with fixed show ?thesis by blast
qed


lemmas double_eval = nearest_double_def binade_def compute_bitlen round_half_even_def Let_def
  power_int_minus

lemma roleBonus_values:
  "roleBonus Correctness = 5404319552844595 / 9007199254740992"
  "roleBonus Security = 8106479329266893 / 9007199254740992"
  "roleBonus Maintainability = 1 / 2"
  by (simp_all add: double_eval)

lemma score_of_tie:
  "rankScore
     \<lparr>id' = ''f1'', repo = ''acme/api'', prNumber = 42, role = Correctness,
      severity = Low, confidence = Fin (1 / 256), file' = ''src/db.ts'', startLine = 20,
      endLine = 20, title = ''Unchecked result'', issueKey = ''unchecked'',
      evidence = [], dedupeKey = ''k1'', score = 0, supportingRoles = [Correctness]\<rparr>
   = nearest_double (156312 / 10000)"
proof -
  have c: "clampConfidence (Fin (1 / 256)) = 1 / 256"
    by (simp add: clampConfidence_def js_min_def js_max_def)
  have m1: "mul_double 1 10 = 10" by (simp add: mul_double_def double_eval)
  have m2: "mul_double (1 / 256) 8 = 1 / 32" by (simp add: mul_double_def double_eval)
  have m3: "mul_double 1 5 = 5" by (simp add: mul_double_def double_eval)
  have s1: "add_double 10 (1 / 32) = 321 / 32" by (simp add: add_double_def double_eval)
  have s2: "add_double (321 / 32) 5 = 481 / 32" by (simp add: add_double_def double_eval)
  have s3: "add_double (481 / 32) (5404319552844595 / 9007199254740992)
      = 8799611459416883 / 562949953421312"
    by (simp add: add_double_def double_eval)
  have f: "toFixed4 (8799611459416883 / 562949953421312) = nearest_double (156312 / 10000)"
    by (simp add: toFixed4_def)
  show ?thesis by (simp add: rankScore_def roleBonus_values c m1 m2 m3 s1 s2 s3 f del: roleBonus.simps)
qed

lemma small_confidence: "nearest_double (1 / 32000) = 1152921504606847 / 36893488147419103232"
  by (simp add: double_eval)

lemma score_near_tie:
  "rankScore
     \<lparr>id' = ''f2'', repo = ''acme/api'', prNumber = 42, role = Maintainability,
      severity = Low, confidence = Fin (nearest_double (1 / 32000)), file' = ''src/db.ts'',
      startLine = 20, endLine = 20, title = ''Unchecked result'', issueKey = ''unchecked'',
      evidence = [], dedupeKey = ''k2'', score = 0, supportingRoles = [Maintainability]\<rparr>
   = nearest_double (155002 / 10000)"
proof -
  have c: "clampConfidence (Fin (1152921504606847 / 36893488147419103232))
      = 1152921504606847 / 36893488147419103232"
    by (simp add: clampConfidence_def js_min_def js_max_def)
  have m1: "mul_double 1 10 = 10" by (simp add: mul_double_def double_eval)
  have m2: "mul_double (1152921504606847 / 36893488147419103232) 8
      = 1152921504606847 / 4611686018427387904"
    by (simp add: mul_double_def double_eval)
  have m3: "mul_double 1 5 = 5" by (simp add: mul_double_def double_eval)
  have s1: "add_double 10 (1152921504606847 / 4611686018427387904)
      = 5629640271701475 / 562949953421312"
    by (simp add: add_double_def double_eval)
  have s2: "add_double (5629640271701475 / 562949953421312) 5
      = 8444390038808035 / 562949953421312"
    by (simp add: add_double_def double_eval)
  have s3: "add_double (8444390038808035 / 562949953421312) (1 / 2)
      = 8725865015518691 / 562949953421312"
    by (simp add: add_double_def double_eval)
  have f: "toFixed4 (8725865015518691 / 562949953421312) = nearest_double (155002 / 10000)"
    by (simp add: toFixed4_def)
  show ?thesis
    by (simp add: rankScore_def roleBonus_values small_confidence c m1 m2 m3 s1 s2 s3 f
        del: roleBonus.simps)
qed

lemma score_of_test:
  "rankScore
     \<lparr>id' = ''critical-1'', repo = ''acme/api'', prNumber = 42, role = Correctness,
      severity = Critical, confidence = Fin (nearest_double (55 / 100)), file' = ''src/db.ts'',
      startLine = 20, endLine = 20, title = ''Potential null dereference'',
      issueKey = ''sql-injection'', evidence = [], dedupeKey = ''k'', score = 0,
      supportingRoles = [Correctness]\<rparr>
   = 50"
proof -
  have d: "nearest_double (11 / 20) = 2476979795053773 / 4503599627370496"
    by (simp add: double_eval)
  have c: "clampConfidence (Fin (2476979795053773 / 4503599627370496))
      = 2476979795053773 / 4503599627370496"
    by (simp add: clampConfidence_def js_min_def js_max_def)
  have m1: "mul_double 4 10 = 40" by (simp add: mul_double_def double_eval)
  have m2: "mul_double (2476979795053773 / 4503599627370496) 8
      = 2476979795053773 / 562949953421312"
    by (simp add: mul_double_def double_eval)
  have m3: "mul_double 1 5 = 5" by (simp add: mul_double_def double_eval)
  have s1: "add_double 40 (2476979795053773 / 562949953421312)
      = 6248744482976563 / 140737488355328"
    by (simp add: add_double_def double_eval)
  have s2: "add_double (6248744482976563 / 140737488355328) 5
      = 6952431924753203 / 140737488355328"
    by (simp add: add_double_def double_eval)
  have s3: "add_double (6952431924753203 / 140737488355328)
      (5404319552844595 / 9007199254740992) = 50"
    by (simp add: add_double_def double_eval)
  have f: "toFixed4 50 = 50" by (simp add: toFixed4_def double_eval)
  show ?thesis
    by (simp add: rankScore_def roleBonus_values d c m1 m2 m3 s1 s2 s3 f del: roleBonus.simps)
qed

text \<open>
  C3 as stated fails, because the sum is taken in doubles. For severity low, confidence
  \<^verbatim>\<open>0.00390625\<close>, one supporting role and the role correctness the formula gives
  \<open>15.63125\<close>, which rounds to \<open>15.6313\<close>; the double nearest to \<^verbatim>\<open>0.6\<close> is below \<open>0.6\<close>, the sum of
  the doubles is below \<open>15.63125\<close>, and the score is the double of \<^verbatim>\<open>15.6312\<close>. For confidence
  \<^verbatim>\<open>0.00003125\<close> and the role maintainability the formula, on the double that the confidence
  is, gives a number above \<open>15.50025\<close>, and the score is the double of \<^verbatim>\<open>15.5002\<close>.
\<close>

theorem rankScore_counterexample:
  "rankScore
     \<lparr>id' = ''f1'', repo = ''acme/api'', prNumber = 42, role = Correctness,
      severity = Low, confidence = Fin (1 / 256), file' = ''src/db.ts'', startLine = 20,
      endLine = 20, title = ''Unchecked result'', issueKey = ''unchecked'',
      evidence = [], dedupeKey = ''k1'', score = 0, supportingRoles = [Correctness]\<rparr>
     = nearest_double (156312 / 10000) \<and>
   rounded_to_4_places (raw_score Low (Fin (1 / 256)) (length [Correctness]) Correctness)
     = 156313 / 10000 \<and>
   nearest_double (156312 / 10000) < 156313 / 10000 - 9 / 100000 \<and>
   rankScore
     \<lparr>id' = ''f2'', repo = ''acme/api'', prNumber = 42, role = Maintainability,
      severity = Low, confidence = Fin (nearest_double (1 / 32000)), file' = ''src/db.ts'',
      startLine = 20, endLine = 20, title = ''Unchecked result'', issueKey = ''unchecked'',
      evidence = [], dedupeKey = ''k2'', score = 0, supportingRoles = [Maintainability]\<rparr>
     = nearest_double (155002 / 10000) \<and>
   rounded_to_4_places
       (raw_score Low (Fin (nearest_double (1 / 32000))) (length [Maintainability]) Maintainability)
     = 155003 / 10000 \<and>
   nearest_double (155002 / 10000) < 155003 / 10000 - 9 / 100000"
proof -
  have "nearest_double (156312 / 10000) = 2199895827979803 / 140737488355328"
    and "nearest_double (155002 / 10000) = 2181459217005255 / 140737488355328"
    by (simp_all add: double_eval)
  then have "nearest_double (156312 / 10000) < 156313 / 10000 - 9 / 100000"
    and "nearest_double (155002 / 10000) < 155003 / 10000 - 9 / 100000"
    by simp_all
  moreover have "rounded_to_4_places (raw_score Low (Fin (1 / 256)) (length [Correctness]) Correctness)
     = 156313 / 10000"
    by (simp add: rounded_to_4_places_def raw_score_def)
  moreover have "rounded_to_4_places
       (raw_score Low (Fin (nearest_double (1 / 32000))) (length [Maintainability]) Maintainability)
     = 155003 / 10000"
    by (simp add: rounded_to_4_places_def raw_score_def small_confidence)
  ultimately show ?thesis using score_of_tie score_near_tie by blast
qed

text \<open>
  C3, as the code has it. The score is a function of the severity, the confidence, the
  number of supporting roles and the role only. It is the formula taken in doubles from left
  to right and rounded by \<^verbatim>\<open>toFixed(4)\<close>: for fewer than \<open>2\<^sup>3\<^sup>2\<close> supporting roles (the bound on
  the length of an array) it is the double nearest to a multiple of \<open>1/10000\<close>, within
  \<open>1/20000 + s/2\<^sup>4\<^sup>9\<close> of the value \<open>s\<close> of the formula in exact arithmetic, and so within
  \<open>1/10000 + s/2\<^sup>4\<^sup>9\<close> of that value rounded to 4 decimal places.
\<close>

theorem rankScore_formula:
  fixes f :: "'a RankedFinding_scheme" and g :: "'b RankedFinding_scheme"
  shows
  "(severity f = severity g \<and> confidence f = confidence g \<and>
    length (supportingRoles f) = length (supportingRoles g) \<and> role f = role g \<longrightarrow>
      rankScore f = rankScore g) \<and>
   (length (supportingRoles f) < 2 ^ 32 \<longrightarrow>
      (\<exists>k::int. rankScore f = nearest_double (of_int k / 10000)) \<and>
      \<bar>rankScore f - raw_score (severity f) (confidence f) (length (supportingRoles f)) (role f)\<bar>
        \<le> 1 / 20000
          + raw_score (severity f) (confidence f) (length (supportingRoles f)) (role f) / 2 ^ 49 \<and>
      \<bar>rankScore f - rounded_to_4_places
          (raw_score (severity f) (confidence f) (length (supportingRoles f)) (role f))\<bar>
        \<le> 1 / 10000
          + raw_score (severity f) (confidence f) (length (supportingRoles f)) (role f) / 2 ^ 49)"
proof -
  define S where "S = raw_score (severity f) (confidence f) (length (supportingRoles f)) (role f)"
  have pure: "severity f = severity g \<and> confidence f = confidence g \<and>
    length (supportingRoles f) = length (supportingRoles g) \<and> role f = role g \<longrightarrow>
      rankScore f = rankScore g"
    by (simp add: rankScore_def)
  have "of_int \<lfloor>S * 10000 + 1 / 2\<rfloor> \<le> S * 10000 + 1 / 2"
    "S * 10000 + 1 / 2 < of_int \<lfloor>S * 10000 + 1 / 2\<rfloor> + 1"
    by linarith+
  then have "\<bar>of_int \<lfloor>S * 10000 + 1 / 2\<rfloor> - S * 10000\<bar> \<le> 1 / 2" by linarith
  then have r: "\<bar>rounded_to_4_places S - S\<bar> \<le> 1 / 20000"
    by (simp add: rounded_to_4_places_def field_simps)
  have "length (supportingRoles f) < 2 ^ 32 \<longrightarrow>
      (\<exists>k::int. rankScore f = nearest_double (of_int k / 10000)) \<and>
      \<bar>rankScore f - S\<bar> \<le> 1 / 20000 + S / 2 ^ 49 \<and>
      \<bar>rankScore f - rounded_to_4_places S\<bar> \<le> 1 / 10000 + S / 2 ^ 49"
  proof
    assume "length (supportingRoles f) < 2 ^ 32"
    from rankScore_near [OF this]
    have k: "\<exists>k::int. rankScore f = nearest_double (of_int k / 10000)"
      and n: "\<bar>rankScore f - S\<bar> \<le> 1 / 20000 + S / 2 ^ 49"
      unfolding S_def by blast+
    from n r have "\<bar>rankScore f - rounded_to_4_places S\<bar> \<le> 1 / 10000 + S / 2 ^ 49"
      by linarith
    with k n show "(\<exists>k::int. rankScore f = nearest_double (of_int k / 10000)) \<and>
      \<bar>rankScore f - S\<bar> \<le> 1 / 20000 + S / 2 ^ 49 \<and>
      \<bar>rankScore f - rounded_to_4_places S\<bar> \<le> 1 / 10000 + S / 2 ^ 49" by blast
  qed
  with pure show ?thesis unfolding S_def by blast
qed

theorem rankScore_formula_witness:
  "length [Correctness] < 2 ^ 32 \<and>
   rankScore
     \<lparr>id' = ''critical-1'', repo = ''acme/api'', prNumber = 42, role = Correctness,
      severity = Critical, confidence = Fin (nearest_double (55 / 100)), file' = ''src/db.ts'',
      startLine = 20, endLine = 20, title = ''Potential null dereference'',
      issueKey = ''sql-injection'', evidence = [], dedupeKey = ''k'', score = 0,
      supportingRoles = [Correctness]\<rparr> = 50 \<and>
   \<bar>50 - raw_score Critical (Fin (nearest_double (55 / 100))) 1 Correctness\<bar>
     \<le> 1 / 20000 + raw_score Critical (Fin (nearest_double (55 / 100))) 1 Correctness / 2 ^ 49"
  using rankScore_formula
    [of "\<lparr>id' = ''critical-1'', repo = ''acme/api'', prNumber = 42, role = Correctness,
      severity = Critical, confidence = Fin (nearest_double (55 / 100)), file' = ''src/db.ts'',
      startLine = 20, endLine = 20, title = ''Potential null dereference'',
      issueKey = ''sql-injection'', evidence = [], dedupeKey = ''k'', score = 0,
      supportingRoles = [Correctness]\<rparr>"
     "\<lparr>id' = ''critical-1'', repo = ''acme/api'', prNumber = 42, role = Correctness,
      severity = Critical, confidence = Fin (nearest_double (55 / 100)), file' = ''src/db.ts'',
      startLine = 20, endLine = 20, title = ''Potential null dereference'',
      issueKey = ''sql-injection'', evidence = [], dedupeKey = ''k'', score = 0,
      supportingRoles = [Correctness]\<rparr>"]
    score_of_test
  by simp

lemma map_of_Map_set: "map_of (Map_set al k v) = (map_of al)(k \<mapsto> v)"
  by (induction al) auto



lemma Array_from_Set_aux:
  "set (foldl (\<lambda>seen x. if x \<in> set seen then seen else seen @ [x]) acc xs) = set acc \<union> set xs \<and>
   (distinct acc \<longrightarrow> distinct (foldl (\<lambda>seen x. if x \<in> set seen then seen else seen @ [x]) acc xs))"
  by (induction xs arbitrary: acc) auto

lemma set_Array_from_Set [simp]: "set (Array_from_Set xs) = set xs"
  using Array_from_Set_aux [of "[]" xs] by (simp add: Array_from_Set_def)

lemma distinct_Array_from_Set [simp]: "distinct (Array_from_Set xs)"
  using Array_from_Set_aux [of "[]" xs] by (simp add: Array_from_Set_def)








































section \<open>Properties of the protocol client\<close>

lemma reject_requests_all:
  "(i, m) \<in> set pending \<Longrightarrow> RejectRequest i reason \<in> set (reject_requests reason pending)"
  by (induction reason pending rule: reject_requests.induct) auto

lemma cancel_waiters_all:
  "(k, t) \<in> set waiters \<Longrightarrow>
   RejectWaiter k (''Turn waiter canceled ('' @ k @ '')'') \<in> set (cancel_waiters waiters)"
  by (induction waiters rule: cancel_waiters.induct) auto

lemma reject_requests_no_spawn: "Spawn \<notin> set (reject_requests reason pending)"
  by (induction reason pending rule: reject_requests.induct) auto

lemma cancel_waiters_no_spawn: "Spawn \<notin> set (cancel_waiters waiters)"
  by (induction waiters rule: cancel_waiters.induct) auto

lemma effects_of_exit:
  "effects_since c (on_exit code signal c) =
     reject_requests (exit_reason code signal) (pendingResponses c) @ cancel_waiters (turnWaiters c)
       @ [Emit ''exit'']"
  by (simp add: effects_since_def on_exit_def failAllPending_def Let_def)

text \<open>
  C7. When the child process exits, whatever the code and the signal (so also with a code
  that is not zero, or a signal), the handler rejects every pending request with the error
  that names the code and the signal and every turn waiter with the error that names its
  turn, leaves both tables empty, and spawns nothing: the child handle stays as it was.
\<close>

theorem exit_fails_all_pending:
  "pendingResponses (on_exit code signal c) = [] \<and>
   turnWaiters (on_exit code signal c) = [] \<and>
   (\<forall>(i, m) \<in> set (pendingResponses c).
      RejectRequest i (exit_reason code signal) \<in> set (effects_since c (on_exit code signal c))) \<and>
   (\<forall>(k, t) \<in> set (turnWaiters c).
      RejectWaiter k (''Turn waiter canceled ('' @ k @ '')'')
        \<in> set (effects_since c (on_exit code signal c))) \<and>
   Spawn \<notin> set (effects_since c (on_exit code signal c)) \<and>
   child (on_exit code signal c) = child c"
proof -
  have "pendingResponses (on_exit code signal c) = []" "turnWaiters (on_exit code signal c) = []"
    "child (on_exit code signal c) = child c"
    by (simp_all add: on_exit_def failAllPending_def Let_def)
  moreover have "\<forall>(i, m) \<in> set (pendingResponses c).
      RejectRequest i (exit_reason code signal) \<in> set (effects_since c (on_exit code signal c))"
    unfolding effects_of_exit using reject_requests_all by fastforce
  moreover have "\<forall>(k, t) \<in> set (turnWaiters c).
      RejectWaiter k (''Turn waiter canceled ('' @ k @ '')'')
        \<in> set (effects_since c (on_exit code signal c))"
    unfolding effects_of_exit using cancel_waiters_all by fastforce
  moreover have "Spawn \<notin> set (effects_since c (on_exit code signal c))"
    unfolding effects_of_exit
    by (simp add: reject_requests_no_spawn cancel_waiters_no_spawn)
  ultimately show ?thesis by blast
qed

theorem exit_fails_all_pending_witness:
  "RejectRequest 4 ''codex app-server exited (code=1, signal=null)''
     \<in> set (effects_since
          \<lparr>child = Some 1, nextRequestId = 5,
           pendingResponses = [(3, ''thread/fork''), (4, ''turn/start'')],
           turnWaiters = [(''t1:u1'', 0)], trace = [Spawn]\<rparr>
          (on_exit (Some 1) None
            \<lparr>child = Some 1, nextRequestId = 5,
             pendingResponses = [(3, ''thread/fork''), (4, ''turn/start'')],
             turnWaiters = [(''t1:u1'', 0)], trace = [Spawn]\<rparr>)) \<and>
   RejectWaiter ''t1:u1'' ''Turn waiter canceled (t1:u1)''
     \<in> set (effects_since
          \<lparr>child = Some 1, nextRequestId = 5,
           pendingResponses = [(3, ''thread/fork''), (4, ''turn/start'')],
           turnWaiters = [(''t1:u1'', 0)], trace = [Spawn]\<rparr>
          (on_exit (Some 1) None
            \<lparr>child = Some 1, nextRequestId = 5,
             pendingResponses = [(3, ''thread/fork''), (4, ''turn/start'')],
             turnWaiters = [(''t1:u1'', 0)], trace = [Spawn]\<rparr>))"
  using exit_fails_all_pending
    [of "Some 1" None
      "\<lparr>child = Some 1, nextRequestId = 5,
        pendingResponses = [(3, ''thread/fork''), (4, ''turn/start'')],
        turnWaiters = [(''t1:u1'', 0)], trace = [Spawn]\<rparr>"]
  by (simp add: exit_reason_def String_of_int_def digits_of_nat.simps digit_char_def)

section \<open>Properties of the orchestrator\<close>

lemma post_comment_error: "post_comment github call = Inl e \<Longrightarrow> github call = Inl e"
  by (simp add: post_comment_def split: sum.splits)

lemma explain_error_origin:
  assumes "explainFinding shortest store github runId findingId = Inl e"
  shows "getRunWithRepo store runId = Inl e \<or> getFinding store runId findingId = Inl e \<or>
    (\<exists>call. github call = Inl e)"
  using assms unfolding explainFinding_def Let_def
  by (auto split: sum.splits option.splits dest: post_comment_error)

text \<open>
  C5 as stated fails for a missing run: nothing is posted (there is no run to take the
  repository and the pull request from), and the job ends without an error.
\<close>

theorem explain_missing_run_counterexample:
  "\<forall>shortest. explainFinding shortest
      \<lparr>getRunWithRepo = (\<lambda>runId. Inr None), getFinding = (\<lambda>runId findingId. Inr None)\<rparr>
      (\<lambda>call. Inr ()) 7 ''finding_42'' = Inr []"
  by (simp add: explainFinding_def)

text \<open>
  C5, as the code has it. For a missing run the job ends without a comment and without an
  error. For a run that exists and a finding that is missing, the comment
  \<^verbatim>\<open>No finding found for id `<findingId>` in run <runId>.\<close> is posted to the pull request of
  the run, and it is the only call to GitHub. An error that leaves \<^verbatim>\<open>explainFinding\<close> is one
  that the store or GitHub raised: a lookup that finds nothing raises none.
\<close>

theorem explain_not_found:
  "(getRunWithRepo store runId = Inr None \<longrightarrow>
      explainFinding shortest store github runId findingId = Inr []) \<and>
   (\<forall>run. getRunWithRepo store runId = Inr (Some run) \<and>
          getFinding store runId findingId = Inr None \<and>
          github (CreateIssueComment (owner (RunWithRepo.repo run)) (name (RunWithRepo.repo run))
                   (installationId (RunWithRepo.repo run)) (RunWithRepo.prNumber run)
                   (''No finding found for id `'' @ findingId @ ''` in run ''
                      @ String_of_int runId @ ''.'')) = Inr () \<longrightarrow>
      explainFinding shortest store github runId findingId =
        Inr [CreateIssueComment (owner (RunWithRepo.repo run)) (name (RunWithRepo.repo run))
               (installationId (RunWithRepo.repo run)) (RunWithRepo.prNumber run)
               (''No finding found for id `'' @ findingId @ ''` in run ''
                  @ String_of_int runId @ ''.'')]) \<and>
   (\<forall>e. explainFinding shortest store github runId findingId = Inl e \<longrightarrow>
      getRunWithRepo store runId = Inl e \<or> getFinding store runId findingId = Inl e \<or>
      (\<exists>call. github call = Inl e))"
proof -
  have "getRunWithRepo store runId = Inr None \<longrightarrow>
      explainFinding shortest store github runId findingId = Inr []"
    by (simp add: explainFinding_def)
  moreover have "\<forall>run. getRunWithRepo store runId = Inr (Some run) \<and>
          getFinding store runId findingId = Inr None \<and>
          github (CreateIssueComment (owner (RunWithRepo.repo run)) (name (RunWithRepo.repo run))
                   (installationId (RunWithRepo.repo run)) (RunWithRepo.prNumber run)
                   (''No finding found for id `'' @ findingId @ ''` in run ''
                      @ String_of_int runId @ ''.'')) = Inr () \<longrightarrow>
      explainFinding shortest store github runId findingId =
        Inr [CreateIssueComment (owner (RunWithRepo.repo run)) (name (RunWithRepo.repo run))
               (installationId (RunWithRepo.repo run)) (RunWithRepo.prNumber run)
               (''No finding found for id `'' @ findingId @ ''` in run ''
                  @ String_of_int runId @ ''.'')]"
    by (simp add: explainFinding_def post_comment_def)
  ultimately show ?thesis using explain_error_origin by blast
qed

theorem explain_not_found_witness:
  "explainFinding (\<lambda>r. [])
     \<lparr>getRunWithRepo =
        (\<lambda>runId. Inr (if runId = 7
           then Some \<lparr>RunWithRepo.id' = 7, RunWithRepo.prNumber = 42,
                  RunWithRepo.repo = \<lparr>owner = ''acme'', name = ''api'', installationId = 99\<rparr>\<rparr>
           else None)),
      getFinding = (\<lambda>runId findingId. Inr None)\<rparr>
     (\<lambda>call. Inr ()) 7 ''finding_42''
   = Inr [CreateIssueComment ''acme'' ''api'' 99 42 ''No finding found for id `finding_42` in run 7.'']"
  using explain_not_found
    [of "\<lparr>getRunWithRepo =
        (\<lambda>runId. Inr (if runId = 7
           then Some \<lparr>RunWithRepo.id' = 7, RunWithRepo.prNumber = 42,
                  RunWithRepo.repo = \<lparr>owner = ''acme'', name = ''api'', installationId = 99\<rparr>\<rparr>
           else None)),
      getFinding = (\<lambda>runId findingId. Inr None)\<rparr>"
      7 "\<lambda>r. []" "\<lambda>call. Inr ()" "''finding_42''"]
  by (simp add: String_of_int_def digits_of_nat.simps digit_char_def)

lemma nan_free_Map_set:
  "nan_free_properties acc \<Longrightarrow> nan_free v \<Longrightarrow> nan_free_properties (Map_set acc k v)"
  by (induction acc) auto

lemma parse_number_not_NaN: "parse_number s = Some (x, rest) \<Longrightarrow> x \<noteq> NaN"
  by (auto simp: parse_number_def Let_def split: if_splits option.splits)

lemma parse_nan_free:
  shows "\<forall>v rest. parse_value n s = Parsed (v, rest) \<longrightarrow> nan_free v"
    and "\<forall>xs rest. parse_elements n s = Parsed (xs, rest) \<longrightarrow> nan_free_elements xs"
    and "\<forall>props rest. nan_free_properties acc \<longrightarrow> parse_members n acc s = Parsed (props, rest) \<longrightarrow>
      nan_free_properties props"
proof (induction n s and n s and n acc s rule: parse_value_parse_elements_parse_members.induct)
  case (1 s)
  then show ?case by simp
next
  case (2 n s)
  show ?case
  proof (cases s)
    case Nil
    then show ?thesis by simp
  next
    case (Cons c cs)
    show ?thesis
    proof (intro allI impI)
      fix v rest
      assume a: "parse_value (Suc n) s = Parsed (v, rest)"
      show "nan_free v"
      proof (cases "c = CHR ''{''")
        case True
        show ?thesis
        proof (cases "startsWith (skip_ws cs) ''}''")
          case t: True
          with a True Cons show ?thesis by auto
        next
          case False
          with a True Cons obtain props where "parse_members n [] (skip_ws cs) = Parsed (props, rest)"
            and "v = JObj props" by auto
          with 2(1) [OF Cons True False] show ?thesis by simp
        qed
      next
        case notobj: False
        show ?thesis
        proof (cases "c = CHR ''[''")
          case True
          show ?thesis
          proof (cases "startsWith (skip_ws cs) '']''")
            case t: True
            with a True notobj Cons show ?thesis by auto
          next
            case False
            with a True notobj Cons obtain xs where "parse_elements n (skip_ws cs) = Parsed (xs, rest)"
              and "v = JArr xs" by auto
            with 2(2) [OF Cons notobj True False] show ?thesis by simp
          qed
        next
          case False
          with a notobj Cons show ?thesis
            by (auto split: if_splits option.splits dest: parse_number_not_NaN)
        qed
      qed
    qed
  qed
next
  case (3 s)
  then show ?case by simp
next
  case (4 n s)
  show ?case
  proof (intro allI impI)
    fix xs rest
    assume a: "parse_elements (Suc n) s = Parsed (xs, rest)"
    then obtain x r where x: "parse_value n s = Parsed (x, r)"
      by (cases "parse_value n s") auto
    from 4(1) x have nx: "nan_free x" by blast
    show "nan_free_elements xs"
    proof (cases "startsWith (skip_ws r) '',''")
      case True
      with a x obtain ys where ys: "parse_elements n (skip_ws (drop 1 (skip_ws r))) = Parsed (ys, rest)"
        and "xs = x # ys" by auto
      moreover from 4(2) [OF x refl True] ys have "nan_free_elements ys" by blast
      ultimately show ?thesis using nx by simp
    next
      case False
      with a x have "xs = [x]" by (auto split: if_splits)
      with nx show ?thesis by simp
    qed
  qed
next
  case (5 acc s)
  then show ?case by simp
next
  case (6 n acc s)
  show ?case
  proof (intro allI impI)
    fix props rest
    assume acc: "nan_free_properties acc" and a: "parse_members (Suc n) acc s = Parsed (props, rest)"
    from a have q: "startsWith s [CHR 0x22]" by (auto split: if_splits)
    with a obtain key r where k: "parse_string_chars (drop 1 s) = Parsed (key, r)"
      by (cases "parse_string_chars (drop 1 s)") auto
    with a q have colon: "startsWith (skip_ws r) '':''" by (auto split: if_splits)
    with a q k obtain v r' where v: "parse_value n (skip_ws (drop 1 (skip_ws r))) = Parsed (v, r')"
      by (cases "parse_value n (skip_ws (drop 1 (skip_ws r)))") auto
    have q': "\<not> \<not> startsWith s [CHR 0x22]" using q by simp
    have colon': "\<not> \<not> startsWith (skip_ws r) '':''" using colon by simp
    from 6(1) [OF q' k refl colon'] v have nv: "nan_free v" by blast
    have acc': "nan_free_properties (Map_set acc key v)"
      by (rule nan_free_Map_set [OF acc nv])
    show "nan_free_properties props"
    proof (cases "startsWith (skip_ws r') '',''")
      case True
      with a q k colon v
      have "parse_members n (Map_set acc key v) (skip_ws (drop 1 (skip_ws r'))) = Parsed (props, rest)"
        by simp
      with 6(2) [OF q' k refl colon' v refl True] acc' show ?thesis by blast
    next
      case False
      with a q k colon v have "props = Map_set acc key v" by (auto split: if_splits)
      with acc' show ?thesis by simp
    qed
  qed
qed







lemma JSON_parse_nan_free: "JSON_parse_modelled s = Some v \<Longrightarrow> nan_free v"
  using parse_nan_free(1) [of "Suc (length s)" "skip_ws s"]
  by (auto simp: JSON_parse_modelled_def JSON_parse_def split: parsed.splits if_splits)













section \<open>Properties of the JSON codec\<close>

lemma hex_digits_read_back: "list_all (\<lambda>d. hex_value (hex_char d) = Some d) [0..<16]"
  by code_simp

lemma hex_value_hex_char: "d < 16 \<Longrightarrow> hex_value (hex_char d) = Some d"
  using hex_digits_read_back by (simp add: list_all_iff)



lemma hex4_control:
  assumes "(of_char c :: nat) < 32"
  shows "hex4 (CHR ''0'' # CHR ''0'' # hex_char ((of_char c :: nat) div 16)
            # hex_char ((of_char c :: nat) mod 16) # rest) = Parsed c"
proof -
  have a: "hex_value (hex_char ((of_char c :: nat) div 16)) = Some ((of_char c :: nat) div 16)"
    using assms by (intro hex_value_hex_char) simp
  have b: "hex_value (hex_char ((of_char c :: nat) mod 16)) = Some ((of_char c :: nat) mod 16)"
    by (intro hex_value_hex_char) simp
  have z: "hex_value (CHR ''0'') = Some 0" by (simp add: hex_value_def)
  show ?thesis
    by (simp add: hex4_def a b z)
qed

lemma parse_quoted_char:
  "parse_string_chars (quote_char c @ text) =
     map_parsed (\<lambda>(s, r). (c # s, r)) (parse_string_chars text)"
proof -
  consider "c = CHR 0x08" | "c = CHR 0x09" | "c = CHR 0x0A" | "c = CHR 0x0C" | "c = CHR 0x0D"
    | "c = CHR 0x22" | "c = CHR 0x5C"
    | "c \<noteq> CHR 0x08" "c \<noteq> CHR 0x09" "c \<noteq> CHR 0x0A" "c \<noteq> CHR 0x0C" "c \<noteq> CHR 0x0D"
      "c \<noteq> CHR 0x22" "c \<noteq> CHR 0x5C" "(of_char c :: nat) < 32"
    | "c \<noteq> CHR 0x22" "c \<noteq> CHR 0x5C" "\<not> (of_char c :: nat) < 32"
    by blast
  then show ?thesis
  proof cases
    case 8
    then show ?thesis
      using hex4_control [OF 8(8)] by (simp add: quote_char_def)
  next
    case 9
    then have "quote_char c = [c]"
      by (auto simp: quote_char_def)
    with 9 show ?thesis by simp
  qed (simp_all add: quote_char_def unescape_def)
qed

lemma parse_quoted_chars:
  "parse_string_chars (concat (map quote_char s) @ CHR 0x22 # rest) = Parsed (s, rest)"
  by (induction s) (simp_all add: parse_quoted_char)

lemma parse_QuoteJSONString:
  "parse_string_chars (tl (QuoteJSONString s) @ rest) = Parsed (s, rest)"
  by (simp add: QuoteJSONString_def parse_quoted_chars)





















































end
